theory Spec2Isabelle
  imports Complex_Main
begin

section \<open>Values shared by the adapters\<close>

text \<open>
  Addresses, call data and transaction hashes are hex strings. A JavaScript \<open>bigint\<close> is an
  \<open>int\<close>. A \<open>BigNumber\<close> (bignumber.js) is an exact decimal, not-a-number or an infinity;
  sums, differences and comparisons of the library are exact, so the finite values are
  rationals.
\<close>

type_synonym hexString = string

datatype bigNumber = NaN | NegInfinity | Finite rat | PosInfinity

text \<open>\<open>new BigNumber(x)\<close> for a \<open>bigint\<close> \<open>x\<close> (also written \<open>new BigNumber(x.toString())\<close>).\<close>

definition bn_of_bigint :: "int \<Rightarrow> bigNumber" where
  "bn_of_bigint x = Finite (of_int x)"

text \<open>\<open>a.lt(b)\<close>, \<open>a.isLessThan(b)\<close>: false whenever an operand is not a number.\<close>

definition bn_lt :: "bigNumber \<Rightarrow> bigNumber \<Rightarrow> bool" where
  "bn_lt a b = (case (a, b) of
      (Finite x, Finite y) \<Rightarrow> x < y
    | (NegInfinity, Finite y) \<Rightarrow> True
    | (NegInfinity, PosInfinity) \<Rightarrow> True
    | (Finite x, PosInfinity) \<Rightarrow> True
    | _ \<Rightarrow> False)"

text \<open>\<open>a.gt(b)\<close>.\<close>

definition bn_gt :: "bigNumber \<Rightarrow> bigNumber \<Rightarrow> bool" where
  "bn_gt a b = bn_lt b a"

text \<open>\<open>a.eq(b)\<close>: not-a-number equals nothing.\<close>

definition bn_eq :: "bigNumber \<Rightarrow> bigNumber \<Rightarrow> bool" where
  "bn_eq a b = (a = b \<and> a \<noteq> NaN)"

text \<open>\<open>a.isZero()\<close>.\<close>

definition bn_isZero :: "bigNumber \<Rightarrow> bool" where
  "bn_isZero a = (a = Finite 0)"

text \<open>\<open>a.plus(b)\<close> and \<open>a.minus(b)\<close>.\<close>

definition bn_plus :: "bigNumber \<Rightarrow> bigNumber \<Rightarrow> bigNumber" where
  "bn_plus a b = (case (a, b) of
      (NaN, _) \<Rightarrow> NaN
    | (_, NaN) \<Rightarrow> NaN
    | (Finite x, Finite y) \<Rightarrow> Finite (x + y)
    | (PosInfinity, NegInfinity) \<Rightarrow> NaN
    | (NegInfinity, PosInfinity) \<Rightarrow> NaN
    | (PosInfinity, _) \<Rightarrow> PosInfinity
    | (NegInfinity, _) \<Rightarrow> NegInfinity
    | (Finite x, other) \<Rightarrow> other)"

definition bn_negated :: "bigNumber \<Rightarrow> bigNumber" where
  "bn_negated a = (case a of
      NaN \<Rightarrow> NaN
    | NegInfinity \<Rightarrow> PosInfinity
    | PosInfinity \<Rightarrow> NegInfinity
    | Finite x \<Rightarrow> Finite (- x))"

definition bn_minus :: "bigNumber \<Rightarrow> bigNumber \<Rightarrow> bigNumber" where
  "bn_minus a b = bn_plus a (bn_negated b)"

subsection \<open>Failures\<close>

text \<open>
  A detail argument handed to \<open>throwError\<close> is a string; \<open>Number b\<close> stands for the string
  \<open>b.toString()\<close>. A failure is a structured error \<open>{code, message}\<close> with an optional
  cause, the failure of an unknown code, or a plain \<open>Error\<close> (raised by
  \<open>throw new Error(...)\<close>, by a library function or by the RPC transport) with the pieces of
  its message, in order. The message of a structured error is the entry of its code in the
  adapter's table with the detail arguments substituted; the value keeps the code and the
  arguments. \<open>TransactionReceiptNotFoundError\<close> is the failure of that class of viem, which
  the Polygon adapter tells apart with \<open>instanceof\<close>.
\<close>

datatype detail = Text string | Number bigNumber

datatype exn =
    SdkError string "detail list" "exn option"
  | UnknownErrorCode string
  | TransactionReceiptNotFoundError
  | Error "detail list"

subsection \<open>The RPC client and the libraries\<close>

datatype abiId =
    ABI_CONTRACT_ACCOUNTING | ABI_CONTRACT_POOL
  | ABI_CONTRACT_APPROVE | ABI_CONTRACT_BUY | ABI_CONTRACT_STAKING
  | MAINNET_ABI | TESTNET_ABI

datatype arg = AInt int | AStr string

text \<open>
  The client answers each call with a value or a failure. \<open>readContract\<close> is read at
  functions with one integer output, \<open>readContract2\<close> at functions with two (the ABI gives
  the shape). The arguments of \<open>estimateGas\<close> are \<open>to\<close>, \<open>data\<close>, \<open>account\<close>; those of
  \<open>simulateContract\<close> are \<open>account\<close>, \<open>address\<close>, \<open>abi\<close>, \<open>functionName\<close>, \<open>args\<close>; that
  of \<open>getTransactionReceipt\<close> is the hash.
\<close>

record publicClient =
  readContract :: "hexString \<Rightarrow> abiId \<Rightarrow> string \<Rightarrow> arg list \<Rightarrow> exn + int"
  readContract2 :: "hexString \<Rightarrow> abiId \<Rightarrow> string \<Rightarrow> arg list \<Rightarrow> exn + int \<times> int"
  estimateGas :: "hexString \<Rightarrow> hexString \<Rightarrow> hexString \<Rightarrow> exn + int"
  simulateContract ::
    "hexString \<Rightarrow> hexString \<Rightarrow> abiId \<Rightarrow> string \<Rightarrow> arg list \<Rightarrow> exn + int"
  getTransactionReceipt :: "hexString \<Rightarrow> exn + unit"

datatype transport = Http string nat nat | Prebuilt nat

datatype urlOrTransport = Url string | Transport transport

text \<open>
  The functions of viem and bignumber.js the adapters call, as parameters of the model.
  \<open>parseUnits\<close> and \<open>BigInt\<close> throw on a malformed string; \<open>encodeFunctionData\<close> throws on
  arguments the ABI does not admit (an integer out of the range of its type, a malformed
  address) and otherwise gives the call data. \<open>createPublicClientNoTransport\<close> is what
  \<open>createPublicClient\<close> does when its transport is \<open>undefined\<close>.
\<close>

record library =
  isAddress :: "string \<Rightarrow> bool"
  parseUnits :: "string \<Rightarrow> nat \<Rightarrow> exn + int"
  formatUnits :: "int \<Rightarrow> nat \<Rightarrow> string"
  newBigNumber :: "string \<Rightarrow> bigNumber"
  BigInt :: "string \<Rightarrow> exn + int"
  encodeFunctionData :: "abiId \<Rightarrow> string \<Rightarrow> arg list \<Rightarrow> exn + hexString"
  createPublicClient :: "transport \<Rightarrow> publicClient"
  createPublicClientNoTransport :: "exn + publicClient"

text \<open>Every call made to the client (and to the off-chain API) is recorded, in order.\<close>

datatype event =
    ReadContract hexString abiId string "arg list"
  | EstimateGas hexString hexString hexString
  | SimulateContract hexString hexString abiId string "arg list"
  | GetTransactionReceipt hexString
  | ApiCheckToken string
  | ApiSetStats string string string hexString string

text \<open>
  An asynchronous method returns its value or throws, after the calls it made.
\<close>

type_synonym 'a io = "(exn + 'a) \<times> event list"

definition io_return :: "'a \<Rightarrow> 'a io" where
  "io_return a = (Inr a, [])"

definition io_throw :: "exn \<Rightarrow> 'a io" where
  "io_throw e = (Inl e, [])"

text \<open>A library call, which throws or returns and reaches no client.\<close>

definition io_lift :: "exn + 'a \<Rightarrow> 'a io" where
  "io_lift r = (r, [])"

text \<open>A call to the client (or the API), recorded with its answer.\<close>

definition io_call :: "event \<Rightarrow> exn + 'a \<Rightarrow> 'a io" where
  "io_call ev r = (r, [ev])"

definition io_bind :: "'a io \<Rightarrow> ('a \<Rightarrow> 'b io) \<Rightarrow> 'b io" where
  "io_bind m f = (case m of
      (Inl e, t) \<Rightarrow> (Inl e, t)
    | (Inr a, t) \<Rightarrow> (case f a of (r, t') \<Rightarrow> (r, t @ t')))"

text \<open>\<open>try { m } catch (error) { h error }\<close>.\<close>

definition io_try :: "'a io \<Rightarrow> (exn \<Rightarrow> 'a io) \<Rightarrow> 'a io" where
  "io_try m h = (case m of
      (Inl e, t) \<Rightarrow> (case h e of (r, t') \<Rightarrow> (r, t @ t'))
    | (Inr a, t) \<Rightarrow> (Inr a, t))"

text \<open>A parameter with a default value.\<close>

definition orDefault :: "'a option \<Rightarrow> 'a \<Rightarrow> 'a" where
  "orDefault x d = (case x of None \<Rightarrow> d | Some v \<Rightarrow> v)"

subsection \<open>JavaScript numbers\<close>

text \<open>
  A gas limit of the Ethereum and Berrachain adapters is a JavaScript number: a double.
  The doubles met here hold integers: \<open>Double n\<close> is the double of value \<open>n\<close>.
  \<open>roundToDouble\<close> is the conversion of an integer to a number (\<open>Number(x)\<close> of a \<open>bigint\<close>,
  \<open>toNumber()\<close> of an integral \<open>BigNumber\<close>): the nearest double, ties to the even
  mantissa; integers up to \<open>2 ^ 53\<close> in magnitude are kept, and magnitudes that round to
  \<open>2 ^ 1024\<close> or more give an infinity. \<open>doubleShift m\<close> is the number of low bits that do
  not fit the 53 bits of the mantissa.
\<close>

datatype jsNumber = Double int | PlusInfinity | MinusInfinity

function doubleShift :: "nat \<Rightarrow> nat" where
  "doubleShift m = (if m < 2 ^ 53 then 0 else Suc (doubleShift (m div 2)))"
  by pat_completeness auto
termination
  by (relation "measure (\<lambda>m. m)") auto

declare doubleShift.simps [simp del]

definition roundToDouble :: "int \<Rightarrow> jsNumber" where
  "roundToDouble x =
     (if \<bar>x\<bar> \<le> 2 ^ 53 then Double x
      else
        let m = nat \<bar>x\<bar>;
            s = doubleShift m;
            q = m div 2 ^ s;
            r = m mod 2 ^ s;
            q' = (if 2 ^ s < 2 * r \<or> (2 * r = 2 ^ s \<and> odd q) then q + 1 else q);
            v = int (q' * 2 ^ s)
        in if 2 ^ 1024 \<le> v then (if x < 0 then MinusInfinity else PlusInfinity)
           else Double (if x < 0 then - v else v))"

text \<open>\<open>a + r\<close> for a number \<open>a\<close> and an integral number \<open>r\<close>: the exact sum, rounded.\<close>

definition jsPlus :: "jsNumber \<Rightarrow> int \<Rightarrow> jsNumber" where
  "jsPlus a r = (case a of
      Double n \<Rightarrow> roundToDouble (n + r)
    | PlusInfinity \<Rightarrow> PlusInfinity
    | MinusInfinity \<Rightarrow> MinusInfinity)"

subsection \<open>Properties of a JavaScript object\<close>

text \<open>
  \<open>obj[key]\<close> on a plain object finds the object's own entry, or else what the object
  inherits from \<open>Object.prototype\<close> under that name (a function, or the prototype itself
  for \<open>__proto__\<close>), or else \<open>undefined\<close>. An inherited value is truthy and has none of
  the fields of an entry.
\<close>

datatype 'a property = Undefined | Own 'a | Inherited

definition objectPrototypeNames :: "string list" where
  "objectPrototypeNames =
     [''constructor'', ''toString'', ''toLocaleString'', ''valueOf'', ''hasOwnProperty'',
      ''isPrototypeOf'', ''propertyIsEnumerable'', ''__proto__'', ''__defineGetter__'',
      ''__defineSetter__'', ''__lookupGetter__'', ''__lookupSetter__'']"

definition getProperty :: "(string \<rightharpoonup> 'a) \<Rightarrow> string \<Rightarrow> 'a property" where
  "getProperty obj key =
     (case obj key of
        Some v \<Rightarrow> Own v
      | None \<Rightarrow> if key \<in> set objectPrototypeNames then Inherited else Undefined)"

section \<open>Base Blockchain\<close>

text \<open>
  The \<open>Blockchain\<close> base class (\<open>utils\<close>), which every adapter extends, is not among the
  sources; the adapters only call its \<open>throwError\<close> and \<open>handleError\<close>. Both never return:
  the functions below give the failure that is thrown. An adapter holds its own table of
  error messages, the field \<open>ERROR_MESSAGES\<close>.
\<close>

record blockchain =
  ERROR_MESSAGES :: "string \<rightharpoonup> string"

text \<open>
  Modelled from the spec: \<open>throwError\<close> of the missing \<open>Blockchain\<close> class. The spec, 4.1:
  \<open>throwError(code, ...detailArgs)\<close> looks \<open>code\<close> up in the adapter's own \<open>ERROR_MESSAGES\<close>
  table, formats the message (substituting detail args), and fails with a structured error
  carrying \<open>{code, message}\<close>; it fails with an \<open>UnknownErrorCode\<close> kind if \<open>code\<close> is absent
  from the table.
\<close>

definition throwError :: "'a blockchain_scheme \<Rightarrow> string \<Rightarrow> detail list \<Rightarrow> exn" where
  "throwError this code detailArgs =
     (case ERROR_MESSAGES this code of
        None \<Rightarrow> UnknownErrorCode code
      | Some message \<Rightarrow> SdkError code detailArgs None)"

text \<open>
  Modelled from the spec: \<open>handleError\<close> of the missing \<open>Blockchain\<close> class. The spec, 4.1:
  \<open>handleError(code, caughtError)\<close>: if \<open>caughtError\<close> already carries one of this adapter's
  known codes, rethrow unchanged; otherwise wrap it under \<open>code\<close>, preserving the original
  as cause.
\<close>

definition handleError :: "'a blockchain_scheme \<Rightarrow> string \<Rightarrow> exn \<Rightarrow> exn" where
  "handleError this code caughtError =
     (case caughtError of
        SdkError c ds cause \<Rightarrow>
          if ERROR_MESSAGES this c \<noteq> None then caughtError
          else SdkError code [] (Some caughtError)
      | _ \<Rightarrow> SdkError code [] (Some caughtError))"

section \<open>Ethereum adapter\<close>

text \<open>
  Modelled from the spec: \<open>UINT16_MAX\<close> (\<open>constants\<close> is not among the sources) is the
  16-bit maximum, 65535.
\<close>

definition UINT16_MAX :: int where
  "UINT16_MAX = 65535"

record contractProps =
  contract_abi :: abiId
  contract_address :: hexString

record ethNetworkAddresses =
  addressContractAccounting :: hexString
  addressContractPool :: hexString
  addressContractWithdrawTreasury_of :: hexString
  rpcUrl :: string

text \<open>
  The constants of the Ethereum module, which are not among the sources, are parameters:
  the own entries of the network table (a plain object), the gas reserve (an integral
  number), the minimum amount (as the \<open>BigNumber\<close> made of it) and the table of error
  messages.
\<close>

record ethConstants =
  ETH_NETWORK_ADDRESSES :: "string \<rightharpoonup> ethNetworkAddresses"
  ETH_GAS_RESERVE :: int
  ETH_MIN_AMOUNT :: bigNumber
  ETH_ERROR_MESSAGES :: "string \<rightharpoonup> string"

record ethereum = blockchain +
  addressContractWithdrawTreasury :: hexString
  contractAccounting :: contractProps
  contractPool :: contractProps
  client :: publicClient
  minAmount :: bigNumber

record ethTransaction =
  tx_from :: hexString
  tx_to :: hexString
  tx_value :: bigNumber
  tx_gasLimit :: jsNumber
  tx_data :: hexString

definition fromWeiToEther :: "int \<Rightarrow> bigNumber" where
  "fromWeiToEther amount = Finite (of_int amount / 10 ^ 18)"

text \<open>
  \<open>new BigNumber(gasConsumption.toString()).plus(ETH_GAS_RESERVE).toNumber()\<close>: the sum is
  exact, \<open>toNumber\<close> rounds it to a double.
\<close>

definition calculateGasLimit :: "ethConstants \<Rightarrow> int \<Rightarrow> jsNumber" where
  "calculateGasLimit K gasConsumption = roundToDouble (gasConsumption + ETH_GAS_RESERVE K)"

definition getTransaction ::
  "ethConstants \<Rightarrow> ethereum \<Rightarrow> hexString \<Rightarrow> hexString \<Rightarrow> hexString \<Rightarrow> bigNumber
    \<Rightarrow> ethTransaction io" where
  "getTransaction K this data address contractAddress val =
     io_bind (io_call (EstimateGas contractAddress data address)
                (estimateGas (client this) contractAddress data address))
       (\<lambda>gasConsumption. io_return
          \<lparr>tx_from = address, tx_to = contractAddress, tx_value = val,
           tx_gasLimit = calculateGasLimit K gasConsumption, tx_data = data\<rparr>)"

definition readyforAutocompoundRewardsAmount :: "ethereum \<Rightarrow> bigNumber io" where
  "readyforAutocompoundRewardsAmount this =
     io_try
       (io_bind (io_call
           (ReadContract (contract_address (contractAccounting this))
              (contract_abi (contractAccounting this))
              ''readyforAutocompoundRewardsAmount'' [])
           (readContract (client this) (contract_address (contractAccounting this))
              (contract_abi (contractAccounting this))
              ''readyforAutocompoundRewardsAmount'' []))
          (\<lambda>result. io_return (fromWeiToEther result)))
       (\<lambda>error. io_throw
          (handleError this ''READY_FOR_AUTOCOMPOUND_REWARDS_AMOUNT_ERROR'' error))"

definition pendingBalanceOf :: "library \<Rightarrow> ethereum \<Rightarrow> string \<Rightarrow> bigNumber io" where
  "pendingBalanceOf L this address =
     io_try
       (if \<not> isAddress L address
        then io_throw (throwError this ''ADDRESS_FORMAT_ERROR'' [])
        else io_bind (io_call
           (ReadContract (contract_address (contractAccounting this))
              (contract_abi (contractAccounting this)) ''pendingBalanceOf'' [AStr address])
           (readContract (client this) (contract_address (contractAccounting this))
              (contract_abi (contractAccounting this)) ''pendingBalanceOf'' [AStr address]))
          (\<lambda>result. io_return (fromWeiToEther result)))
       (\<lambda>error. io_throw (handleError this ''PENDING_BALANCE_OF_ERROR'' error))"

definition autocompoundBalanceOf :: "library \<Rightarrow> ethereum \<Rightarrow> string \<Rightarrow> bigNumber io" where
  "autocompoundBalanceOf L this address =
     io_try
       (if \<not> isAddress L address
        then io_throw (throwError this ''ADDRESS_FORMAT_ERROR'' [])
        else io_bind (io_call
           (ReadContract (contract_address (contractAccounting this))
              (contract_abi (contractAccounting this)) ''autocompoundBalanceOf''
              [AStr address])
           (readContract (client this) (contract_address (contractAccounting this))
              (contract_abi (contractAccounting this)) ''autocompoundBalanceOf''
              [AStr address]))
          (\<lambda>result. io_return (fromWeiToEther result)))
       (\<lambda>error. io_throw (handleError this ''AUTOCOMPOUND_BALANCE_OF_ERROR'' error))"

record withdrawRequestInfo =
  requested :: bigNumber
  readyForClaim :: bigNumber

definition withdrawRequest :: "library \<Rightarrow> ethereum \<Rightarrow> string \<Rightarrow> withdrawRequestInfo io" where
  "withdrawRequest L this address =
     io_try
       (if \<not> isAddress L address
        then io_throw (throwError this ''ADDRESS_FORMAT_ERROR'' [])
        else io_bind (io_call
           (ReadContract (contract_address (contractAccounting this))
              (contract_abi (contractAccounting this)) ''withdrawRequest'' [AStr address])
           (readContract2 (client this) (contract_address (contractAccounting this))
              (contract_abi (contractAccounting this)) ''withdrawRequest'' [AStr address]))
          (\<lambda>result. io_return
             \<lparr>requested = fromWeiToEther (fst result),
              readyForClaim = fromWeiToEther (snd result)\<rparr>))
       (\<lambda>error. io_throw (handleError this ''WITHDRAW_REQUEST_ERROR'' error))"

definition minStakeAmount :: "ethereum \<Rightarrow> bigNumber io" where
  "minStakeAmount this =
     io_try
       (io_bind (io_call
           (ReadContract (contract_address (contractPool this))
              (contract_abi (contractPool this)) ''minStakeAmount'' [])
           (readContract (client this) (contract_address (contractPool this))
              (contract_abi (contractPool this)) ''minStakeAmount'' []))
          (\<lambda>result. io_return (fromWeiToEther result)))
       (\<lambda>error. io_throw (handleError this ''MIN_STAKE_AMOUNT_ERROR'' error))"

definition autocompound :: "library \<Rightarrow> ethConstants \<Rightarrow> ethereum \<Rightarrow> string \<Rightarrow> ethTransaction io" where
  "autocompound L K this address =
     io_try
       (if \<not> isAddress L address
        then io_throw (throwError this ''ADDRESS_FORMAT_ERROR'' [])
        else io_bind (readyforAutocompoundRewardsAmount this)
          (\<lambda>rewards.
             if bn_isZero rewards then io_throw (throwError this ''NO_REWARDS_MESSAGE'' [])
             else io_bind
               (io_lift (encodeFunctionData L (contract_abi (contractAccounting this))
                  ''autocompound'' []))
               (\<lambda>data. getTransaction K this data address
                  (contract_address (contractAccounting this)) (Finite 0))))
       (\<lambda>error. io_throw (handleError this ''AUTOCOMPOUND_ERROR'' error))"

definition claimWithdrawRequest ::
  "library \<Rightarrow> ethConstants \<Rightarrow> ethereum \<Rightarrow> string \<Rightarrow> ethTransaction io" where
  "claimWithdrawRequest L K this address =
     io_try
       (if \<not> isAddress L address
        then io_throw (throwError this ''ADDRESS_FORMAT_ERROR'' [])
        else io_bind (withdrawRequest L this address)
          (\<lambda>rewards.
             if bn_isZero (requested rewards)
             then io_throw (throwError this ''ZERO_UNSTAKE_ERROR'' [])
             else if \<not> bn_eq (readyForClaim rewards) (requested rewards)
             then io_throw (throwError this ''NOT_FILLED_UNSTAKE_MESSAGE'' [])
             else io_bind
               (io_lift (encodeFunctionData L (contract_abi (contractAccounting this))
                  ''claimWithdrawRequest'' []))
               (\<lambda>data. getTransaction K this data address
                  (contract_address (contractAccounting this)) (Finite 0))))
       (\<lambda>error. io_throw (handleError this ''CLAIM_WITHDRAW_REQUEST_ERROR'' error))"

text \<open>
  \<open>amount\<close> is a string here, so the source's \<open>typeof amount !== 'string'\<close> check never
  fires and is left out of \<open>stake\<close> and \<open>unstake\<close>. The arguments of a call are evaluated
  before it: \<open>parseUnits\<close>, then \<open>BigInt\<close>, then \<open>encodeFunctionData\<close>, then the gas estimate
  of \<open>getTransaction\<close>.
\<close>

definition stake ::
  "library \<Rightarrow> ethConstants \<Rightarrow> ethereum \<Rightarrow> string \<Rightarrow> string \<Rightarrow> string option
    \<Rightarrow> ethTransaction io" where
  "stake L K this address amount source_opt =
     (let source = orDefault source_opt ''0'' in
      if \<not> isAddress L address
      then io_throw (throwError this ''ADDRESS_FORMAT_ERROR'' [])
      else io_bind (io_lift (parseUnits L amount 18))
        (\<lambda>wei.
           let amountWei = bn_of_bigint wei in
           if bn_lt amountWei (minAmount this)
           then io_throw (throwError this ''MIN_AMOUNT_ERROR'' [Number (minAmount this)])
           else io_try
             (io_bind (io_lift (BigInt L source))
                (\<lambda>src. io_bind
                   (io_lift (encodeFunctionData L (contract_abi (contractPool this)) ''stake''
                      [AInt src]))
                   (\<lambda>data. getTransaction K this data address
                      (contract_address (contractPool this)) amountWei)))
             (\<lambda>error. io_throw (handleError this ''STAKE_ERROR'' error))))"

definition unstake ::
  "library \<Rightarrow> ethConstants \<Rightarrow> ethereum \<Rightarrow> string \<Rightarrow> string \<Rightarrow> int option \<Rightarrow> string option
    \<Rightarrow> ethTransaction io" where
  "unstake L K this address amount allowedInterchangeNum_opt source_opt =
     (let allowedInterchangeNum = orDefault allowedInterchangeNum_opt 0;
          source = orDefault source_opt ''0'' in
      if \<not> isAddress L address
      then io_throw (throwError this ''ADDRESS_FORMAT_ERROR'' [])
      else io_try
        (io_bind (autocompoundBalanceOf L this address)
           (\<lambda>balance.
              let allowedInterchangeNum =
                    (if allowedInterchangeNum > UINT16_MAX then UINT16_MAX
                     else allowedInterchangeNum) in
              if bn_lt balance (newBigNumber L amount)
              then io_throw
                (throwError this ''MAX_AMOUNT_FOR_UNSTAKE_ERROR'' [Number balance])
              else io_bind (io_lift (parseUnits L amount 18))
                (\<lambda>wei. io_bind (io_lift (BigInt L source))
                   (\<lambda>src. io_bind
                      (io_lift (encodeFunctionData L (contract_abi (contractPool this))
                         ''unstake'' [AInt wei, AInt allowedInterchangeNum, AInt src]))
                      (\<lambda>data. getTransaction K this data address
                         (contract_address (contractPool this)) (Finite 0))))))
        (\<lambda>error. io_throw (handleError this ''UNSTAKE_ERROR'' error)))"

definition simulateUnstake ::
  "library \<Rightarrow> ethereum \<Rightarrow> string \<Rightarrow> string \<Rightarrow> int option \<Rightarrow> string option
    \<Rightarrow> bigNumber io" where
  "simulateUnstake L this address amount allowedInterchangeNum_opt source_opt =
     (let allowedInterchangeNum = orDefault allowedInterchangeNum_opt 1;
          source = orDefault source_opt ''0'' in
      io_try
        (if \<not> isAddress L address
         then io_throw (throwError this ''ADDRESS_FORMAT_ERROR'' [])
         else io_bind (autocompoundBalanceOf L this address)
           (\<lambda>balance.
              let allowedInterchangeNum =
                    (if allowedInterchangeNum > UINT16_MAX then UINT16_MAX
                     else allowedInterchangeNum) in
              if bn_lt balance (newBigNumber L amount)
              then io_throw
                (throwError this ''MAX_AMOUNT_FOR_UNSTAKE_ERROR'' [Number balance])
              else io_bind (io_lift (parseUnits L amount 18))
                (\<lambda>wei. io_bind (io_lift (BigInt L source))
                   (\<lambda>src. io_bind
                      (io_call
                         (SimulateContract address (contract_address (contractPool this))
                            (contract_abi (contractPool this)) ''unstake''
                            [AInt wei, AInt allowedInterchangeNum, AInt src])
                         (simulateContract (client this) address
                            (contract_address (contractPool this))
                            (contract_abi (contractPool this)) ''unstake''
                            [AInt wei, AInt allowedInterchangeNum, AInt src]))
                      (\<lambda>result. io_return (fromWeiToEther result))))))
        (\<lambda>error. io_throw (handleError this ''SIMULATE_UNSTAKE_ERROR'' error)))"

definition unstakePending ::
  "library \<Rightarrow> ethConstants \<Rightarrow> ethereum \<Rightarrow> string \<Rightarrow> string \<Rightarrow> ethTransaction io" where
  "unstakePending L K this address amount =
     (if \<not> isAddress L address
      then io_throw (throwError this ''ADDRESS_FORMAT_ERROR'' [])
      else io_bind (pendingBalanceOf L this address)
        (\<lambda>pendingBalance.
           if bn_isZero pendingBalance
           then io_throw (throwError this ''ZERO_UNSTAKE_MESSAGE'' [])
           else
             let bnAmount = newBigNumber L amount in
             if bn_gt bnAmount pendingBalance
             then io_throw
               (throwError this ''AMOUNT_GREATER_THAN_PENDING_BALANCE_ERROR''
                  [Number pendingBalance])
             else io_try
               (let pendingBalance = bn_minus pendingBalance bnAmount in
                io_bind
                  (if \<not> bn_isZero pendingBalance
                   then io_bind (minStakeAmount this)
                     (\<lambda>minStake.
                        if bn_lt pendingBalance minStake
                        then io_throw
                          (throwError this ''INSUFFICIENT_PENDING_BALANCE_ERROR''
                             [Number minStake])
                        else io_return ())
                   else io_return ())
                  (\<lambda>u. io_bind (io_lift (parseUnits L amount 18))
                     (\<lambda>wei. io_bind
                        (io_lift (encodeFunctionData L (contract_abi (contractPool this))
                           ''unstakePending'' [AInt wei]))
                        (\<lambda>data. getTransaction K this data address
                           (contract_address (contractPool this)) (Finite 0)))))
               (\<lambda>error. io_throw (handleError this ''UNSTAKE_PENDING_ERROR'' error))))"

definition activateStake ::
  "library \<Rightarrow> ethConstants \<Rightarrow> ethereum \<Rightarrow> string \<Rightarrow> ethTransaction io" where
  "activateStake L K this address =
     io_try
       (if \<not> isAddress L address
        then io_throw (throwError this ''ADDRESS_FORMAT_ERROR'' [])
        else io_bind
          (io_lift (encodeFunctionData L (contract_abi (contractPool this))
             ''activateStake'' []))
          (\<lambda>data. getTransaction K this data address
             (contract_address (contractPool this)) (Finite 0)))
       (\<lambda>error. io_throw (handleError this ''ACTIVATE_STAKE_ERROR'' error))"

text \<open>
  \<open>initializeNetwork\<close> assigns fields of the adapter object, so it gives the object after
  the call beside its outcome. An adapter whose three contract addresses are defined is an
  \<open>ethereum\<close> record, on which the operations above are defined. The object can also hold
  \<open>undefined\<close> in those three places: then it is described by its error table, client and
  minimum amount alone.
\<close>

record ethereumUnbound = blockchain +
  client_u :: publicClient
  minAmount_u :: bigNumber

datatype ethereumObject = Adapter ethereum | AddressesUndefined ethereumUnbound

definition messagesOf :: "ethereumObject \<Rightarrow> blockchain" where
  "messagesOf obj = (case obj of
      Adapter this \<Rightarrow> \<lparr>ERROR_MESSAGES = ERROR_MESSAGES this\<rparr>
    | AddressesUndefined this \<Rightarrow> \<lparr>ERROR_MESSAGES = ERROR_MESSAGES this\<rparr>)"

definition minAmountOf :: "ethereumObject \<Rightarrow> bigNumber" where
  "minAmountOf obj = (case obj of
      Adapter this \<Rightarrow> minAmount this
    | AddressesUndefined this \<Rightarrow> minAmount_u this)"

text \<open>
  \<open>initializeNetwork\<close>. \<open>ETH_NETWORK_ADDRESSES[network]\<close> is a property read of a plain
  object; \<open>if (!networkAddresses)\<close> throws only when it is \<open>undefined\<close>. The empty URL is
  falsy, so \<open>urlOrTransport || networkAddresses.rpcUrl\<close> replaces it as it replaces a
  missing one. With an own entry the client and the three addresses are assigned. With an
  inherited value, \<open>rpcUrl\<close> and the three addresses read from it are \<open>undefined\<close>: the
  client is made of the URL or transport given, or of an \<open>undefined\<close> transport, and the
  three addresses are assigned \<open>undefined\<close>. A throw happens before any assignment.
\<close>

definition initializeNetwork ::
  "library \<Rightarrow> ethConstants \<Rightarrow> ethereumObject \<Rightarrow> string \<Rightarrow> urlOrTransport option
    \<Rightarrow> (exn + unit) \<times> ethereumObject" where
  "initializeNetwork L K this network urlOrTransport_opt =
     (case getProperty (ETH_NETWORK_ADDRESSES K) network of
        Undefined \<Rightarrow>
          (Inl (throwError (messagesOf this) ''NETWORK_NOT_SUPPORTED'' [Text network]), this)
      | Own networkAddresses \<Rightarrow>
          let urlOrTransport =
                (case urlOrTransport_opt of
                   None \<Rightarrow> Url (rpcUrl networkAddresses)
                 | Some (Url u) \<Rightarrow>
                     if u = [] then Url (rpcUrl networkAddresses) else Url u
                 | Some (Transport t) \<Rightarrow> Transport t)
          in (Inr (), Adapter
               \<lparr>ERROR_MESSAGES = ERROR_MESSAGES (messagesOf this),
                addressContractWithdrawTreasury =
                  addressContractWithdrawTreasury_of networkAddresses,
                contractAccounting =
                  \<lparr>contract_abi = ABI_CONTRACT_ACCOUNTING,
                   contract_address = addressContractAccounting networkAddresses\<rparr>,
                contractPool =
                  \<lparr>contract_abi = ABI_CONTRACT_POOL,
                   contract_address = addressContractPool networkAddresses\<rparr>,
                client = createPublicClient L
                  (case urlOrTransport of
                     Url u \<Rightarrow> Http u 1 300
                   | Transport t \<Rightarrow> t),
                minAmount = minAmountOf this\<rparr>)
      | Inherited \<Rightarrow>
          (case (case urlOrTransport_opt of
                   None \<Rightarrow> createPublicClientNoTransport L
                 | Some (Url u) \<Rightarrow>
                     if u = [] then createPublicClientNoTransport L
                     else Inr (createPublicClient L (Http u 1 300))
                 | Some (Transport t) \<Rightarrow> Inr (createPublicClient L t)) of
             Inl e \<Rightarrow> (Inl e, this)
           | Inr c \<Rightarrow>
               (Inr (), AddressesUndefined
                  \<lparr>ERROR_MESSAGES = ERROR_MESSAGES (messagesOf this),
                   client_u = c, minAmount_u = minAmountOf this\<rparr>)))"

text \<open>\<open>selectNetwork\<close> returns the adapter itself: the second component.\<close>

definition selectNetwork ::
  "library \<Rightarrow> ethConstants \<Rightarrow> ethereumObject \<Rightarrow> string \<Rightarrow> string option
    \<Rightarrow> (exn + unit) \<times> ethereumObject" where
  "selectNetwork L K this network url =
     initializeNetwork L K this network (map_option Url url)"

text \<open>
  The constructor: the error table and the minimum amount are set, then the network is
  initialized. The client has no value before that; the one written here is never read,
  since \<open>initializeNetwork\<close> assigns the client or throws, and a throw gives no adapter.
\<close>

definition newEthereum ::
  "library \<Rightarrow> ethConstants \<Rightarrow> string option \<Rightarrow> string option \<Rightarrow> exn + ethereumObject" where
  "newEthereum L K network_opt url =
     (case initializeNetwork L K
        (AddressesUndefined
           \<lparr>ERROR_MESSAGES = ETH_ERROR_MESSAGES K,
            client_u = createPublicClient L (Http [] 1 300),
            minAmount_u = ETH_MIN_AMOUNT K\<rparr>)
        (orDefault network_opt ''mainnet'') (map_option Url url) of
        (Inl e, this) \<Rightarrow> Inl e
      | (Inr u, this) \<Rightarrow> Inr this)"

section \<open>Polygon adapter\<close>

text \<open>
  The constants of the Polygon module, which are not among the sources, are parameters.
  \<open>MIN_AMOUNT\<close> is a \<open>BigNumber\<close> holding a whole number of base units (the source turns
  it into a \<open>bigint\<close>). \<open>TOKEN_ERROR\<close> is \<open>COMMON_ERROR_MESSAGES.TOKEN_ERROR\<close>.
\<close>

record polygonConstants =
  ADDRESS_CONTRACT_APPROVE :: hexString
  ADDRESS_CONTRACT_APPROVE_POL :: hexString
  ADDRESS_CONTRACT_BUY :: hexString
  ADDRESS_CONTRACT_STAKING :: hexString
  CHAIN :: string
  CLAIM_REWARDS_BASE_GAS :: int
  CLAIM_UNDELEGATE_BASE_GAS :: int
  DELEGATE_BASE_GAS :: int
  MIN_AMOUNT :: int
  RESTAKE_BASE_GAS :: int
  RPC_URL :: string
  UNDELEGATE_BASE_GAS :: int
  WITHDRAW_EPOCH_DELAY :: int
  TOKEN_ERROR :: string
  POLYGON_ERROR_MESSAGES :: "string \<rightharpoonup> string"

text \<open>The off-chain API the Polygon adapter calls.\<close>

record api =
  CheckToken :: "string \<Rightarrow> exn + bool"
  SetStats :: "string \<Rightarrow> string \<Rightarrow> string \<Rightarrow> hexString \<Rightarrow> string \<Rightarrow> exn + unit"

record polygon = blockchain +
  contract_approve :: contractProps
  contract_approve_pol :: contractProps
  contract_buy :: contractProps
  contract_staking :: contractProps
  client_p :: publicClient

record transactionRequest =
  req_from :: hexString
  req_to :: hexString
  req_gasLimit :: int
  req_data :: hexString

record unbondInfo =
  unbond_amount :: bigNumber
  withdrawEpoch :: int
  unbondNonces :: int

definition newPolygon :: "library \<Rightarrow> polygonConstants \<Rightarrow> urlOrTransport option \<Rightarrow> polygon" where
  "newPolygon L P rpcOrTransport_opt =
     \<lparr>ERROR_MESSAGES = POLYGON_ERROR_MESSAGES P,
      contract_approve =
        \<lparr>contract_abi = ABI_CONTRACT_APPROVE, contract_address = ADDRESS_CONTRACT_APPROVE P\<rparr>,
      contract_approve_pol =
        \<lparr>contract_abi = ABI_CONTRACT_APPROVE,
         contract_address = ADDRESS_CONTRACT_APPROVE_POL P\<rparr>,
      contract_buy =
        \<lparr>contract_abi = ABI_CONTRACT_BUY, contract_address = ADDRESS_CONTRACT_BUY P\<rparr>,
      contract_staking =
        \<lparr>contract_abi = ABI_CONTRACT_STAKING, contract_address = ADDRESS_CONTRACT_STAKING P\<rparr>,
      client_p = createPublicClient L
        (case orDefault rpcOrTransport_opt (Url (RPC_URL P)) of
           Url u \<Rightarrow> Http u 1 300
         | Transport t \<Rightarrow> t)\<rparr>"

definition getTransaction_p ::
  "polygon \<Rightarrow> hexString \<Rightarrow> hexString \<Rightarrow> hexString \<Rightarrow> transactionRequest io" where
  "getTransaction_p this data address contractAddress =
     io_bind (io_call (EstimateGas contractAddress data address)
                (estimateGas (client_p this) contractAddress data address))
       (\<lambda>gasLimit. io_return
          \<lparr>req_from = address, req_to = contractAddress, req_gasLimit = gasLimit,
           req_data = data\<rparr>)"


definition approve ::
  "library \<Rightarrow> polygonConstants \<Rightarrow> polygon \<Rightarrow> hexString \<Rightarrow> string \<Rightarrow> bool option
    \<Rightarrow> transactionRequest io" where
  "approve L P this address amount isPOL_opt =
     (let isPOL = orDefault isPOL_opt False in
      io_bind (io_lift (parseUnits L amount 18))
        (\<lambda>amountWei.
           if bn_lt (bn_of_bigint amountWei) (bn_of_bigint (MIN_AMOUNT P))
           then io_throw
             (Error [Text ''Min Amount '', Text (formatUnits L (MIN_AMOUNT P) 18),
                     Text '' matic''])
           else
             let contract = (if isPOL then contract_approve_pol this
                             else contract_approve this) in
             io_try
               (io_bind
                  (io_lift (encodeFunctionData L (contract_abi contract) ''approve''
                     [AStr (ADDRESS_CONTRACT_STAKING P), AInt amountWei]))
                  (\<lambda>data. getTransaction_p this data address (contract_address contract)))
               (\<lambda>error. io_throw (handleError this ''APPROVE_ERR'' error))))"

definition getAllowance ::
  "polygonConstants \<Rightarrow> polygon \<Rightarrow> hexString \<Rightarrow> bool option \<Rightarrow> hexString option \<Rightarrow> int io" where
  "getAllowance P this owner isPOL_opt spender_opt =
     (let isPOL = orDefault isPOL_opt False;
          spender = orDefault spender_opt (ADDRESS_CONTRACT_STAKING P);
          contract = (if isPOL then contract_approve_pol this else contract_approve this) in
      io_try
        (io_call
           (ReadContract (contract_address contract) (contract_abi contract) ''allowance''
              [AStr owner, AStr spender])
           (readContract (client_p this) (contract_address contract) (contract_abi contract)
              ''allowance'' [AStr owner, AStr spender]))
        (\<lambda>error. io_throw (handleError this ''GET_ALLOWANCE_ERR'' error)))"

text \<open>
  \<open>delegate\<close>: a \<open>bigint\<close> is truthy when it is not zero, so \<open>allowedAmount && ...\<close> skips
  the allowance check at allowance zero. \<open>Number(amount)\<close>, reported to the statistics, is
  recorded as the string it is made of.
\<close>

definition delegate ::
  "library \<Rightarrow> api \<Rightarrow> polygonConstants \<Rightarrow> polygon \<Rightarrow> string \<Rightarrow> hexString \<Rightarrow> string
    \<Rightarrow> bool option \<Rightarrow> transactionRequest io" where
  "delegate L A P this token address amount isPOL_opt =
     (let isPOL = orDefault isPOL_opt False in
      io_bind (io_call (ApiCheckToken token) (CheckToken A token))
        (\<lambda>ok.
           if ok then
             io_bind (io_lift (parseUnits L amount 18))
               (\<lambda>amountWei.
                  if bn_lt (bn_of_bigint amountWei) (bn_of_bigint (MIN_AMOUNT P))
                  then io_throw
                    (Error [Text ''Min Amount '', Number (bn_of_bigint (MIN_AMOUNT P)),
                            Text '' wei matic''])
                  else io_try
                    (io_bind (getAllowance P this address None None)
                       (\<lambda>allowedAmount.
                          if allowedAmount \<noteq> 0
                             \<and> bn_lt (bn_of_bigint allowedAmount) (bn_of_bigint amountWei)
                          then io_throw (throwError this ''ALLOWANCE_ERR'' [])
                          else io_bind
                            (io_lift (encodeFunctionData L (contract_abi (contract_buy this))
                               (if isPOL then ''buyVoucherPOL'' else ''buyVoucher'')
                               [AInt amountWei, AInt 0]))
                            (\<lambda>data.
                               let tx = \<lparr>req_from = address, req_to = ADDRESS_CONTRACT_BUY P,
                                         req_gasLimit = DELEGATE_BASE_GAS P,
                                         req_data = data\<rparr> in
                               io_bind
                                 (io_call (ApiSetStats token ''stake'' amount address (CHAIN P))
                                    (SetStats A token ''stake'' amount address (CHAIN P)))
                                 (\<lambda>u. io_return tx))))
                    (\<lambda>error. io_throw (handleError this ''DELEGATE_ERR'' error)))
           else io_throw (Error [Text (TOKEN_ERROR P)])))"




definition getUnbondNonces :: "polygon \<Rightarrow> hexString \<Rightarrow> int io" where
  "getUnbondNonces this address =
     io_try
       (io_call
          (ReadContract (contract_address (contract_buy this)) (contract_abi (contract_buy this))
             ''unbondNonces'' [AStr address])
          (readContract (client_p this) (contract_address (contract_buy this))
             (contract_abi (contract_buy this)) ''unbondNonces'' [AStr address]))
       (\<lambda>error. io_throw (handleError this ''GET_UNBOND_NONCE_ERR'' error))"

definition getUnbond :: "library \<Rightarrow> polygon \<Rightarrow> hexString \<Rightarrow> int option \<Rightarrow> unbondInfo io" where
  "getUnbond L this address unbondNonce_opt =
     (let unbondNonce = orDefault unbondNonce_opt 0 in
      io_try
        (io_bind (getUnbondNonces this address)
           (\<lambda>unbondNoncesRes.
              let nonces = (if unbondNonce = 0 then unbondNoncesRes else unbondNonce) in
              io_bind
                (io_call
                   (ReadContract (contract_address (contract_buy this))
                      (contract_abi (contract_buy this)) ''unbonds_new''
                      [AStr address, AInt nonces])
                   (readContract2 (client_p this) (contract_address (contract_buy this))
                      (contract_abi (contract_buy this)) ''unbonds_new''
                      [AStr address, AInt nonces]))
                (\<lambda>res. io_return
                   \<lparr>unbond_amount = newBigNumber L (formatUnits L (fst res) 18),
                    withdrawEpoch = snd res,
                    unbondNonces = nonces\<rparr>)))
        (\<lambda>error. io_throw (handleError this ''GET_UNBOND_ERR'' error)))"

definition getCurrentEpoch :: "polygon \<Rightarrow> int io" where
  "getCurrentEpoch this =
     io_call
       (ReadContract (contract_address (contract_staking this))
          (contract_abi (contract_staking this)) ''currentEpoch'' [])
       (readContract (client_p this) (contract_address (contract_staking this))
          (contract_abi (contract_staking this)) ''currentEpoch'' [])"

definition claimUndelegate ::
  "library \<Rightarrow> polygonConstants \<Rightarrow> polygon \<Rightarrow> hexString \<Rightarrow> int option \<Rightarrow> bool option
    \<Rightarrow> transactionRequest io" where
  "claimUndelegate L P this address unbondNonce_opt isPOL_opt =
     (let unbondNonce = orDefault unbondNonce_opt 0;
          isPOL = orDefault isPOL_opt False in
      io_bind (getUnbond L this address (Some unbondNonce))
        (\<lambda>unbond.
           if bn_isZero (unbond_amount unbond)
           then io_throw (Error [Text ''Nothing to claim''])
           else io_bind (getCurrentEpoch this)
             (\<lambda>currentEpoch.
                if bn_lt (bn_of_bigint currentEpoch)
                     (bn_plus (bn_of_bigint (withdrawEpoch unbond))
                        (bn_of_bigint (WITHDRAW_EPOCH_DELAY P)))
                then io_throw (Error [Text ''Current epoch less than withdraw delay''])
                else io_bind
                  (io_lift (encodeFunctionData L (contract_abi (contract_buy this))
                     (if isPOL then ''unstakeClaimTokens_newPOL''
                      else ''unstakeClaimTokens_new'')
                     [AInt (unbondNonces unbond)]))
                  (\<lambda>data. io_return
                     \<lparr>req_from = address, req_to = ADDRESS_CONTRACT_BUY P,
                      req_gasLimit = CLAIM_UNDELEGATE_BASE_GAS P, req_data = data\<rparr>))))"

definition reward ::
  "library \<Rightarrow> polygonConstants \<Rightarrow> polygon \<Rightarrow> string \<Rightarrow> bool option
    \<Rightarrow> transactionRequest io" where
  "reward L P this address isPOL_opt =
     (let isPOL = orDefault isPOL_opt False in
      io_bind
        (io_lift (encodeFunctionData L (contract_abi (contract_buy this))
           (if isPOL then ''withdrawRewardsPOL'' else ''withdrawRewards'') []))
        (\<lambda>data. io_return
           \<lparr>req_from = address, req_to = ADDRESS_CONTRACT_BUY P,
            req_gasLimit = CLAIM_REWARDS_BASE_GAS P, req_data = data\<rparr>))"


section \<open>Berrachain adapter\<close>

datatype beraNetwork = Testnet | Mainnet

record bgtContract =
  bgt_network :: beraNetwork
  bgt_abi :: abiId
  contractAddress :: hexString

text \<open>The constants of the Berrachain module, which are not among the sources, are parameters.\<close>

record beraConstants =
  GAS_RESERVE :: int
  MAINNET_BGT_CONTRACT_ADDRESS :: hexString
  MAINNET_VALIDATOR :: hexString
  TESTNET_BGT_CONTRACT_ADDRESS :: hexString
  TESTNET_VALIDATOR :: hexString
  BERA_ERROR_MESSAGES :: "string \<rightharpoonup> string"

record berrachain = blockchain +
  validator :: hexString
  client_b :: publicClient
  btg :: bgtContract
  network_b :: beraNetwork

definition newBerrachain ::
  "library \<Rightarrow> beraConstants \<Rightarrow> string option \<Rightarrow> urlOrTransport \<Rightarrow> exn + berrachain" where
  "newBerrachain L B network_opt rpcOrTransport =
     (let network = orDefault network_opt ''mainnet'';
          c = createPublicClient L
                (case rpcOrTransport of Url u \<Rightarrow> Http u 1 300 | Transport t \<Rightarrow> t) in
      if network = ''mainnet'' then Inr
        \<lparr>ERROR_MESSAGES = BERA_ERROR_MESSAGES B, validator = MAINNET_VALIDATOR B,
         client_b = c,
         btg = \<lparr>bgt_network = Mainnet, bgt_abi = MAINNET_ABI,
                contractAddress = MAINNET_BGT_CONTRACT_ADDRESS B\<rparr>,
         network_b = Mainnet\<rparr>
      else if network = ''testnet'' then Inr
        \<lparr>ERROR_MESSAGES = BERA_ERROR_MESSAGES B, validator = TESTNET_VALIDATOR B,
         client_b = c,
         btg = \<lparr>bgt_network = Testnet, bgt_abi = TESTNET_ABI,
                contractAddress = TESTNET_BGT_CONTRACT_ADDRESS B\<rparr>,
         network_b = Testnet\<rparr>
      else Inl (throwError \<lparr>ERROR_MESSAGES = BERA_ERROR_MESSAGES B\<rparr> ''NETWORK_ERROR'' []))"

text \<open>
  \<open>Number(gasConsumption) + GAS_RESERVE\<close>: the estimate is rounded to a double, and so is the
  sum. \<open>GAS_RESERVE\<close> is an integral number.
\<close>

definition calculateGasLimit_b :: "beraConstants \<Rightarrow> int \<Rightarrow> jsNumber" where
  "calculateGasLimit_b B gasConsumption =
     jsPlus (roundToDouble gasConsumption) (GAS_RESERVE B)"

definition getTransaction_b ::
  "beraConstants \<Rightarrow> berrachain \<Rightarrow> hexString \<Rightarrow> hexString \<Rightarrow> ethTransaction io" where
  "getTransaction_b B this data address =
     io_bind (io_call (EstimateGas (contractAddress (btg this)) data address)
                (estimateGas (client_b this) (contractAddress (btg this)) data address))
       (\<lambda>gasConsumption. io_return
          \<lparr>tx_from = address, tx_to = contractAddress (btg this), tx_value = Finite 0,
           tx_gasLimit = calculateGasLimit_b B gasConsumption, tx_data = data\<rparr>)"

definition approveForStake ::
  "library \<Rightarrow> beraConstants \<Rightarrow> berrachain \<Rightarrow> hexString \<Rightarrow> string \<Rightarrow> ethTransaction io" where
  "approveForStake L B this address amount =
     io_try
       (io_bind (io_lift (parseUnits L amount 18))
          (\<lambda>wei. io_bind
             (io_lift (encodeFunctionData L (bgt_abi (btg this)) ''approve''
                [AStr (contractAddress (btg this)), AInt wei]))
             (\<lambda>data. getTransaction_b B this data address)))
       (\<lambda>error. io_throw (handleError this ''APPROVE_FOR_STAKE_ERROR'' error))"

definition activateStake_b ::
  "library \<Rightarrow> beraConstants \<Rightarrow> berrachain \<Rightarrow> hexString \<Rightarrow> ethTransaction io" where
  "activateStake_b L B this address =
     io_try
       (io_bind
          (io_lift
             (case bgt_network (btg this) of
                Testnet \<Rightarrow> encodeFunctionData L (bgt_abi (btg this)) ''activateBoost''
                  [AStr (validator this)]
              | Mainnet \<Rightarrow> encodeFunctionData L (bgt_abi (btg this)) ''activateBoost''
                  [AStr address, AStr (validator this)]))
          (\<lambda>data. getTransaction_b B this data address))
       (\<lambda>error. io_throw (handleError this ''ACTIVATE_BOOST_ERROR'' error))"

definition cancelStakeInQueue ::
  "library \<Rightarrow> beraConstants \<Rightarrow> berrachain \<Rightarrow> string \<Rightarrow> string \<Rightarrow> ethTransaction io" where
  "cancelStakeInQueue L B this address amount =
     io_try
       (if \<not> isAddress L address
        then io_throw (throwError this ''ADDRESS_FORMAT_ERROR'' [])
        else io_bind (io_lift (parseUnits L amount 18))
          (\<lambda>wei. io_bind
             (io_lift (encodeFunctionData L (bgt_abi (btg this)) ''cancelBoost''
                [AStr (validator this), AInt wei]))
             (\<lambda>data. getTransaction_b B this data address)))
       (\<lambda>error. io_throw (handleError this ''CANCEL_BOOST_ERROR'' error))"

definition unstake_b ::
  "library \<Rightarrow> beraConstants \<Rightarrow> berrachain \<Rightarrow> string \<Rightarrow> string \<Rightarrow> ethTransaction io" where
  "unstake_b L B this address amount =
     io_try
       (if \<not> isAddress L address
        then io_throw (throwError this ''ADDRESS_FORMAT_ERROR'' [])
        else io_bind
          (case bgt_network (btg this) of
             Testnet \<Rightarrow> io_bind (io_lift (parseUnits L amount 18))
               (\<lambda>wei. io_lift
                  (encodeFunctionData L (bgt_abi (btg this)) ''dropBoost''
                     [AStr (validator this), AInt wei]))
           | Mainnet \<Rightarrow> io_lift
               (encodeFunctionData L (bgt_abi (btg this)) ''dropBoost''
                  [AStr address, AStr (validator this)]))
          (\<lambda>data. getTransaction_b B this data address))
       (\<lambda>error. io_throw (handleError this ''DROP_BOOST_ERROR'' error))"

definition stake_b ::
  "library \<Rightarrow> beraConstants \<Rightarrow> berrachain \<Rightarrow> string \<Rightarrow> string \<Rightarrow> ethTransaction io" where
  "stake_b L B this address amount =
     io_try
       (if \<not> isAddress L address
        then io_throw (throwError this ''ADDRESS_FORMAT_ERROR'' [])
        else io_bind (io_lift (parseUnits L amount 18))
          (\<lambda>wei. io_bind
             (io_lift (encodeFunctionData L (bgt_abi (btg this)) ''queueBoost''
                [AStr (validator this), AInt wei]))
             (\<lambda>data. getTransaction_b B this data address)))
       (\<lambda>error. io_throw (handleError this ''BOOST_ERROR'' error))"

definition queueUnstake ::
  "library \<Rightarrow> beraConstants \<Rightarrow> berrachain \<Rightarrow> hexString \<Rightarrow> string \<Rightarrow> ethTransaction io" where
  "queueUnstake L B this address amount =
     io_try
       (if network_b this \<noteq> Mainnet
        then io_throw (throwError this ''NOT_AVAILABLE_NETWORK'' [])
        else io_bind (io_lift (parseUnits L amount 18))
          (\<lambda>wei. io_bind
             (io_lift (encodeFunctionData L (bgt_abi (btg this)) ''queueDropBoost''
                [AStr (validator this), AInt wei]))
             (\<lambda>data. getTransaction_b B this data address)))
       (\<lambda>error. io_throw (handleError this ''QUEUE_DROP_BOOST_ERROR'' error))"

definition cancelUnstake ::
  "library \<Rightarrow> beraConstants \<Rightarrow> berrachain \<Rightarrow> hexString \<Rightarrow> string \<Rightarrow> ethTransaction io" where
  "cancelUnstake L B this address amount =
     io_try
       (if network_b this \<noteq> Mainnet
        then io_throw (throwError this ''NOT_AVAILABLE_NETWORK'' [])
        else io_bind (io_lift (parseUnits L amount 18))
          (\<lambda>wei. io_bind
             (io_lift (encodeFunctionData L (bgt_abi (btg this)) ''cancelDropBoost''
                [AStr (validator this), AInt wei]))
             (\<lambda>data. getTransaction_b B this data address)))
       (\<lambda>error. io_throw (handleError this ''CANCEL_DROP_BOOST_ERROR'' error))"

section \<open>Predicates of the properties\<close>

text \<open>A failure carries a code of the adapter's vocabulary.\<close>

definition carriesCode :: "'a blockchain_scheme \<Rightarrow> exn \<Rightarrow> bool" where
  "carriesCode this e =
     (case e of SdkError c ds cs \<Rightarrow> ERROR_MESSAGES this c \<noteq> None | _ \<Rightarrow> False)"


text \<open>
  A returned transaction has as its gas limit what \<open>pad\<close> makes of the client's estimate
  for its own call; and that is the estimate plus the reserve whenever the estimate and the
  sum are at most \<open>2 ^ 53\<close> in magnitude.
\<close>

definition gasPadded ::
  "publicClient \<Rightarrow> (int \<Rightarrow> jsNumber) \<Rightarrow> int \<Rightarrow> ethTransaction io \<Rightarrow> bool" where
  "gasPadded c pad reserve m =
     (case fst m of
        Inl e \<Rightarrow> True
      | Inr tx \<Rightarrow>
          (case estimateGas c (tx_to tx) (tx_data tx) (tx_from tx) of
             Inl e \<Rightarrow> False
           | Inr gas \<Rightarrow>
               tx_gasLimit tx = pad gas
               \<and> (\<bar>gas\<bar> \<le> 2 ^ 53 \<and> \<bar>gas + reserve\<bar> \<le> 2 ^ 53
                    \<longrightarrow> tx_gasLimit tx = Double (gas + reserve))))"

text \<open>A returned transaction request has the client's estimate itself as its gas limit.\<close>

definition gasRaw :: "publicClient \<Rightarrow> transactionRequest io \<Rightarrow> bool" where
  "gasRaw c m =
     (case fst m of
        Inl e \<Rightarrow> True
      | Inr tx \<Rightarrow> estimateGas c (req_to tx) (req_data tx) (req_from tx) = Inr (req_gasLimit tx))"

section \<open>Test doubles\<close>

text \<open>
  A client that answers every read of one integer from a table by function name, every
  read of two integers with one pair and every gas estimate with one answer; a library
  that accepts addresses of 42 characters starting with \<open>0x\<close> and amounts written as
  decimal digits, and encodes a call as its function name.
\<close>

fun natOfDigits :: "string \<Rightarrow> nat \<Rightarrow> nat option" where
  "natOfDigits [] acc = Some acc"
| "natOfDigits (c # cs) acc =
     (if 48 \<le> (of_char c :: nat) \<and> (of_char c :: nat) \<le> 57
      then natOfDigits cs (10 * acc + (of_char c - 48)) else None)"

definition stubClient ::
  "(string \<times> int) list \<Rightarrow> int \<times> int \<Rightarrow> exn + int \<Rightarrow> publicClient" where
  "stubClient reads pair gas =
     \<lparr>readContract = (\<lambda>a i f xs. case map_of reads f of
          None \<Rightarrow> Inl (Error [Text ''execution reverted''])
        | Some v \<Rightarrow> Inr v),
      readContract2 = (\<lambda>a i f xs. Inr pair),
      estimateGas = (\<lambda>t d a. gas),
      simulateContract = (\<lambda>a c i f xs. Inr 0),
      getTransactionReceipt = (\<lambda>h. Inl TransactionReceiptNotFoundError)\<rparr>"

definition stubLibrary :: library where
  "stubLibrary =
     \<lparr>isAddress = (\<lambda>a. length a = 42 \<and> take 2 a = ''0x''),
      parseUnits = (\<lambda>s d. case natOfDigits s 0 of
          None \<Rightarrow> Inl (Error [Text ''InvalidDecimalNumberError''])
        | Some n \<Rightarrow> Inr (int n * 10 ^ d)),
      formatUnits = (\<lambda>v d. if v = 0 then ''0'' else ''1''),
      newBigNumber = (\<lambda>s. if s = [] then NaN else
          (case natOfDigits s 0 of None \<Rightarrow> NaN | Some n \<Rightarrow> Finite (of_nat n))),
      BigInt = (\<lambda>s. case natOfDigits s 0 of
          None \<Rightarrow> Inl (Error [Text ''SyntaxError''])
        | Some n \<Rightarrow> Inr (int n)),
      encodeFunctionData = (\<lambda>i f xs. Inr f),
      createPublicClient = (\<lambda>t. stubClient [] (0, 0) (Inr 21000)),
      createPublicClientNoTransport = Inl (Error [Text ''TypeError''])\<rparr>"

text \<open>The same library with an encoder that rejects every call.\<close>

definition rejectingLibrary :: library where
  "rejectingLibrary =
     stubLibrary\<lparr>encodeFunctionData :=
       (\<lambda>i f xs. Inl (Error [Text ''IntegerOutOfRangeError'']))\<rparr>"

definition stubAddress :: hexString where
  "stubAddress = ''0x0000000000000000000000000000000000000001''"

definition stubMessages :: "string \<rightharpoonup> string" where
  "stubMessages = map_of
     [(''ADDRESS_FORMAT_ERROR'', ''Invalid address format''),
      (''MIN_AMOUNT_ERROR'', ''Min Amount {0} wei''),
      (''MAX_AMOUNT_FOR_UNSTAKE_ERROR'', ''Max Amount For Unstake {0}''),
      (''ZERO_UNSTAKE_ERROR'', ''No amount requested for unstake''),
      (''NOT_FILLED_UNSTAKE_MESSAGE'', ''Unstake request not filled yet''),
      (''ZERO_UNSTAKE_MESSAGE'', ''Zero pending balance''),
      (''AMOUNT_GREATER_THAN_PENDING_BALANCE_ERROR'', ''Amount greater than {0}''),
      (''INSUFFICIENT_PENDING_BALANCE_ERROR'', ''Pending balance less than min stake {0}''),
      (''NETWORK_NOT_SUPPORTED'', ''Unsupported network {0}'')]"

definition stubEthConstants :: ethConstants where
  "stubEthConstants =
     \<lparr>ETH_NETWORK_ADDRESSES = map_of
        [(''mainnet'',
          \<lparr>addressContractAccounting = ''0xAcc'', addressContractPool = ''0xPool'',
           addressContractWithdrawTreasury_of = ''0xTreasury'', rpcUrl = ''https://rpc''\<rparr>)],
      ETH_GAS_RESERVE = 220000,
      ETH_MIN_AMOUNT = Finite 100000000000000000,
      ETH_ERROR_MESSAGES = stubMessages\<rparr>"

definition stubEthereum :: "publicClient \<Rightarrow> ethereum" where
  "stubEthereum c =
     \<lparr>ERROR_MESSAGES = stubMessages,
      addressContractWithdrawTreasury = ''0xTreasury'',
      contractAccounting =
        \<lparr>contract_abi = ABI_CONTRACT_ACCOUNTING, contract_address = ''0xAcc''\<rparr>,
      contractPool = \<lparr>contract_abi = ABI_CONTRACT_POOL, contract_address = ''0xPool''\<rparr>,
      client = c,
      minAmount = Finite 100000000000000000\<rparr>"

definition stubPolygonConstants :: polygonConstants where
  "stubPolygonConstants =
     \<lparr>ADDRESS_CONTRACT_APPROVE = ''0xApprove'', ADDRESS_CONTRACT_APPROVE_POL = ''0xApprovePol'',
      ADDRESS_CONTRACT_BUY = ''0xBuy'', ADDRESS_CONTRACT_STAKING = ''0xStaking'',
      CHAIN = ''polygon'', CLAIM_REWARDS_BASE_GAS = 180000,
      CLAIM_UNDELEGATE_BASE_GAS = 200000, DELEGATE_BASE_GAS = 220000,
      MIN_AMOUNT = 1000000000000000000, RESTAKE_BASE_GAS = 220000, RPC_URL = ''https://rpc'',
      UNDELEGATE_BASE_GAS = 300000, WITHDRAW_EPOCH_DELAY = 80,
      TOKEN_ERROR = ''Please create or use correct token'',
      POLYGON_ERROR_MESSAGES = map_of
        [(''TRANSACTION_LOADING_ERR'', ''Transaction loading error''),
         (''APPROVE_ERR'', ''Approve error''), (''DELEGATE_ERR'', ''Delegate error''),
         (''UNDELEGATE_ERR'', ''Undelegate error''), (''GET_REWARD_ERR'', ''Get reward error''),
         (''GET_ALLOWANCE_ERR'', ''Get allowance error''),
         (''GET_TOTAL_DELEGATE_ERR'', ''Get total delegate error''),
         (''GET_UNBOND_ERR'', ''Get unbond error''),
         (''GET_UNBOND_NONCE_ERR'', ''Get unbond nonce error''),
         (''ALLOWANCE_ERR'', ''Allowance less than amount''),
         (''DELEGATED_BALANCE_ERR'', ''Delegated balance less than amount'')]\<rparr>"

definition stubBeraConstants :: beraConstants where
  "stubBeraConstants =
     \<lparr>GAS_RESERVE = 50000, MAINNET_BGT_CONTRACT_ADDRESS = ''0xBgt'',
      MAINNET_VALIDATOR = ''0xValidator'', TESTNET_BGT_CONTRACT_ADDRESS = ''0xBgtTest'',
      TESTNET_VALIDATOR = ''0xValidatorTest'',
      BERA_ERROR_MESSAGES = map_of [(''ADDRESS_FORMAT_ERROR'', ''Invalid address format'')]\<rparr>"

text \<open>A Polygon adapter built by the constructor, and a mainnet Berrachain adapter, with the
  client replaced.\<close>

definition stubPolygon :: "publicClient \<Rightarrow> polygon" where
  "stubPolygon c = (newPolygon stubLibrary stubPolygonConstants None)\<lparr>client_p := c\<rparr>"

definition stubBerrachain :: "publicClient \<Rightarrow> berrachain" where
  "stubBerrachain c =
     \<lparr>ERROR_MESSAGES = BERA_ERROR_MESSAGES stubBeraConstants,
      validator = MAINNET_VALIDATOR stubBeraConstants, client_b = c,
      btg = \<lparr>bgt_network = Mainnet, bgt_abi = MAINNET_ABI,
             contractAddress = MAINNET_BGT_CONTRACT_ADDRESS stubBeraConstants\<rparr>,
      network_b = Mainnet\<rparr>"


section \<open>Properties\<close>

subsection \<open>Auxiliary facts\<close>

lemmas io_defs = io_return_def io_throw_def io_lift_def io_call_def io_bind_def io_try_def

lemmas stub_defs = stubLibrary_def stubAddress_def stubEthereum_def stubClient_def
  stubMessages_def stubEthConstants_def

lemmas stubp_defs = stubPolygon_def newPolygon_def stubPolygonConstants_def stubClient_def
  stubLibrary_def orDefault_def

lemmas stubb_defs = stubBerrachain_def stubBeraConstants_def stubClient_def stubLibrary_def
  stubAddress_def

lemma bn_of_bigint_lt_plus:
  "bn_lt (bn_of_bigint a) (bn_plus (bn_of_bigint b) (bn_of_bigint c)) \<longleftrightarrow> a < b + c"
proof -
  have "(of_int a :: rat) < of_int b + of_int c \<longleftrightarrow> a < b + c"
    by (metis of_int_add of_int_less_iff)
  then show ?thesis
    by (simp add: bn_lt_def bn_plus_def bn_of_bigint_def)
qed

lemma bn_of_bigint_lt: "bn_lt (bn_of_bigint a) (bn_of_bigint b) \<longleftrightarrow> a < b"
  by (simp add: bn_lt_def bn_of_bigint_def)

lemma handleError_known:
  "ERROR_MESSAGES this c \<noteq> None \<Longrightarrow> handleError this code (SdkError c ds cs) = SdkError c ds cs"
  by (simp add: handleError_def)

lemma throwError_known:
  "ERROR_MESSAGES this c \<noteq> None \<Longrightarrow> throwError this c ds = SdkError c ds None"
  by (auto simp add: throwError_def)

lemma fromWeiToEther_isZero: "bn_isZero (fromWeiToEther x) \<longleftrightarrow> x = 0"
  by (simp add: bn_isZero_def fromWeiToEther_def)

lemma fromWeiToEther_eq: "bn_eq (fromWeiToEther x) (fromWeiToEther y) \<longleftrightarrow> x = y"
  by (simp add: bn_eq_def fromWeiToEther_def)

lemma autocompoundBalanceOf_read:
  assumes "isAddress L address"
    and "readContract (client this) (contract_address (contractAccounting this))
           (contract_abi (contractAccounting this)) ''autocompoundBalanceOf'' [AStr address]
         = Inr b"
  shows "autocompoundBalanceOf L this address =
           (Inr (fromWeiToEther b),
            [ReadContract (contract_address (contractAccounting this))
               (contract_abi (contractAccounting this)) ''autocompoundBalanceOf''
               [AStr address]])"
  using assms by (simp add: autocompoundBalanceOf_def io_defs)

lemma pendingBalanceOf_read:
  assumes "isAddress L address"
    and "readContract (client this) (contract_address (contractAccounting this))
           (contract_abi (contractAccounting this)) ''pendingBalanceOf'' [AStr address]
         = Inr b"
  shows "pendingBalanceOf L this address =
           (Inr (fromWeiToEther b),
            [ReadContract (contract_address (contractAccounting this))
               (contract_abi (contractAccounting this)) ''pendingBalanceOf''
               [AStr address]])"
  using assms by (simp add: pendingBalanceOf_def io_defs)

lemma withdrawRequest_read:
  assumes "isAddress L address"
    and "readContract2 (client this) (contract_address (contractAccounting this))
           (contract_abi (contractAccounting this)) ''withdrawRequest'' [AStr address]
         = Inr (req, ready)"
  shows "withdrawRequest L this address =
           (Inr \<lparr>requested = fromWeiToEther req, readyForClaim = fromWeiToEther ready\<rparr>,
            [ReadContract (contract_address (contractAccounting this))
               (contract_abi (contractAccounting this)) ''withdrawRequest''
               [AStr address]])"
  using assms by (simp add: withdrawRequest_def io_defs)

lemma minStakeAmount_read:
  assumes "readContract (client this) (contract_address (contractPool this))
           (contract_abi (contractPool this)) ''minStakeAmount'' [] = Inr m"
  shows "minStakeAmount this =
           (Inr (fromWeiToEther m),
            [ReadContract (contract_address (contractPool this))
               (contract_abi (contractPool this)) ''minStakeAmount'' []])"
  using assms by (simp add: minStakeAmount_def io_defs)

lemma doubleShift_less: "m < 2 ^ 53 \<Longrightarrow> doubleShift m = 0"
  by (subst doubleShift.simps) simp

lemma doubleShift_halve:
  "\<not> m < 2 ^ 53 \<Longrightarrow> doubleShift m = Suc (doubleShift (m div 2))"
  by (subst doubleShift.simps) simp

lemma roundToDouble_safe: "\<bar>x\<bar> \<le> 2 ^ 53 \<Longrightarrow> roundToDouble x = Double x"
  by (simp add: roundToDouble_def)

lemma calculateGasLimit_safe:
  "\<bar>gas + ETH_GAS_RESERVE K\<bar> \<le> 2 ^ 53
   \<Longrightarrow> calculateGasLimit K gas = Double (gas + ETH_GAS_RESERVE K)"
  by (simp add: calculateGasLimit_def roundToDouble_safe)

lemma calculateGasLimit_b_safe:
  "\<bar>gas\<bar> \<le> 2 ^ 53 \<Longrightarrow> \<bar>gas + GAS_RESERVE B\<bar> \<le> 2 ^ 53
   \<Longrightarrow> calculateGasLimit_b B gas = Double (gas + GAS_RESERVE B)"
  by (simp add: calculateGasLimit_b_def jsPlus_def roundToDouble_safe)

subsection \<open>Ethereum: unstake and the autocompound balance\<close>

text \<open>
  C1, amended. For a valid address, with \<open>B\<close> the autocompound balance the on-chain read
  gives and \<open>A\<close> the requested amount (and \<open>MAX_AMOUNT_FOR_UNSTAKE_ERROR\<close> a code of the
  adapter's table): when \<open>B < A\<close>, \<open>unstake\<close> fails with \<open>MAX_AMOUNT_FOR_UNSTAKE_ERROR\<close>,
  and \<open>B\<close> is the detail argument of the message; a call that returns a transaction has
  not \<open>B < A\<close>, and its amount and source parsed, its call data was encoded and its gas
  estimate succeeded; and when not \<open>B < A\<close>, the amount and the source parse, the call data
  is encoded and the gas estimate succeeds, the call returns the unsigned transaction, with
  the gas limit \<open>calculateGasLimit\<close> makes of the estimate.
\<close>

theorem unstake_balance_check:
  assumes "isAddress L address"
    and "readContract (client this) (contract_address (contractAccounting this))
           (contract_abi (contractAccounting this)) ''autocompoundBalanceOf'' [AStr address]
         = Inr b"
    and "ERROR_MESSAGES this ''MAX_AMOUNT_FOR_UNSTAKE_ERROR'' \<noteq> None"
  shows "(bn_lt (fromWeiToEther b) (newBigNumber L amount) \<longrightarrow>
            fst (unstake L K this address amount n s)
              = Inl (SdkError ''MAX_AMOUNT_FOR_UNSTAKE_ERROR'' [Number (fromWeiToEther b)] None))
       \<and> (\<forall>tx. fst (unstake L K this address amount n s) = Inr tx
            \<longrightarrow> \<not> bn_lt (fromWeiToEther b) (newBigNumber L amount)
              \<and> (\<exists>wei src data gas.
                    parseUnits L amount 18 = Inr wei
                    \<and> BigInt L (orDefault s ''0'') = Inr src
                    \<and> encodeFunctionData L (contract_abi (contractPool this)) ''unstake''
                         [AInt wei, AInt (min (orDefault n 0) UINT16_MAX), AInt src] = Inr data
                    \<and> estimateGas (client this) (contract_address (contractPool this)) data
                         address = Inr gas))
       \<and> (\<forall>wei src data gas.
            \<not> bn_lt (fromWeiToEther b) (newBigNumber L amount)
            \<and> parseUnits L amount 18 = Inr wei
            \<and> BigInt L (orDefault s ''0'') = Inr src
            \<and> encodeFunctionData L (contract_abi (contractPool this)) ''unstake''
                 [AInt wei, AInt (min (orDefault n 0) UINT16_MAX), AInt src] = Inr data
            \<and> estimateGas (client this) (contract_address (contractPool this)) data address
                 = Inr gas
            \<longrightarrow> fst (unstake L K this address amount n s) = Inr
                 \<lparr>tx_from = address, tx_to = contract_address (contractPool this),
                  tx_value = Finite 0, tx_gasLimit = calculateGasLimit K gas,
                  tx_data = data\<rparr>)"
  using assms(1) assms(3)
  by (auto simp add: unstake_def autocompoundBalanceOf_read [OF assms(1) assms(2)] io_defs
        Let_def getTransaction_def throwError_known handleError_known
        min_def split: sum.splits)

theorem unstake_balance_check_witness:
  "fst (unstake stubLibrary stubEthConstants
          (stubEthereum (stubClient [(''autocompoundBalanceOf'', 2000000000000000000)] (0, 0)
             (Inr 21000)))
          stubAddress ''3'' None None)
     = Inl (SdkError ''MAX_AMOUNT_FOR_UNSTAKE_ERROR'' [Number (Finite 2)] None)
   \<and> fst (unstake stubLibrary stubEthConstants
          (stubEthereum (stubClient [(''autocompoundBalanceOf'', 2000000000000000000)] (0, 0)
             (Inr 21000)))
          stubAddress ''1'' None None)
     = Inr \<lparr>tx_from = stubAddress, tx_to = ''0xPool'', tx_value = Finite 0,
            tx_gasLimit = Double 241000, tx_data = ''unstake''\<rparr>"
proof -
  let ?E = "stubEthereum (stubClient [(''autocompoundBalanceOf'', 2000000000000000000)] (0, 0)
             (Inr 21000))"
  have h1: "isAddress stubLibrary stubAddress"
    by (simp add: stub_defs)
  have h2: "readContract (client ?E) (contract_address (contractAccounting ?E))
           (contract_abi (contractAccounting ?E)) ''autocompoundBalanceOf'' [AStr stubAddress]
         = Inr 2000000000000000000"
    by (simp add: stub_defs)
  have h3: "ERROR_MESSAGES ?E ''MAX_AMOUNT_FOR_UNSTAKE_ERROR'' \<noteq> None"
    by (simp add: stub_defs)
  have a: "bn_lt (fromWeiToEther 2000000000000000000) (newBigNumber stubLibrary ''3'')"
    by (simp add: stub_defs bn_lt_def fromWeiToEther_def)
  have b: "\<not> bn_lt (fromWeiToEther 2000000000000000000) (newBigNumber stubLibrary ''1'')
      \<and> parseUnits stubLibrary ''1'' 18 = Inr 1000000000000000000
      \<and> BigInt stubLibrary (orDefault None ''0'') = Inr 0
      \<and> encodeFunctionData stubLibrary (contract_abi (contractPool ?E)) ''unstake''
           [AInt 1000000000000000000, AInt (min (orDefault None 0) UINT16_MAX), AInt 0]
         = Inr ''unstake''
      \<and> estimateGas (client ?E) (contract_address (contractPool ?E)) ''unstake'' stubAddress
         = Inr 21000"
    by (simp add: stub_defs bn_lt_def fromWeiToEther_def orDefault_def)
  have f: "fromWeiToEther 2000000000000000000 = Finite 2"
    by (simp add: fromWeiToEther_def)
  note T3 = unstake_balance_check [OF h1 h2 h3, of "''3''" stubEthConstants None None]
  note r1 = T3 [THEN conjunct1, rule_format, OF a]
  note T1 = unstake_balance_check [OF h1 h2 h3, of "''1''" stubEthConstants None None]
  note r2 = T1 [THEN conjunct2, THEN conjunct2, rule_format, OF b]
  show ?thesis unfolding r1 r2
    by (simp add: stub_defs f calculateGasLimit_def roundToDouble_def)
qed

text \<open>
  The claim as written fails where the balance suffices and the gas estimate fails: the
  address is valid, the balance read gives 2 ETH, 1 ETH is requested, and the call fails
  with \<open>UNSTAKE_ERROR\<close>.
\<close>

theorem unstake_gas_estimate_fails:
  "isAddress stubLibrary stubAddress
   \<and> readContract
        (client (stubEthereum (stubClient [(''autocompoundBalanceOf'', 2000000000000000000)]
           (0, 0) (Inl (Error [Text ''gas estimation failed'']))))) ''0xAcc''
        ABI_CONTRACT_ACCOUNTING ''autocompoundBalanceOf'' [AStr stubAddress]
       = Inr 2000000000000000000
   \<and> fromWeiToEther 2000000000000000000 = Finite 2
   \<and> newBigNumber stubLibrary ''1'' = Finite 1
   \<and> (1 :: rat) \<le> 2
   \<and> fst (unstake stubLibrary stubEthConstants
        (stubEthereum (stubClient [(''autocompoundBalanceOf'', 2000000000000000000)] (0, 0)
           (Inl (Error [Text ''gas estimation failed'']))))
        stubAddress ''1'' None None)
       = Inl (SdkError ''UNSTAKE_ERROR'' [] (Some (Error [Text ''gas estimation failed''])))"
  by (simp add: unstake_def autocompoundBalanceOf_def io_defs Let_def getTransaction_def
        stub_defs throwError_def handleError_def fromWeiToEther_def bn_lt_def orDefault_def
        UINT16_MAX_def)

text \<open>
  So it does where the balance suffices and the encoder rejects the call.
\<close>

lemma unstake_encoder_fails:
  "fst (unstake rejectingLibrary stubEthConstants
        (stubEthereum (stubClient [(''autocompoundBalanceOf'', 2000000000000000000)] (0, 0)
           (Inr 21000)))
        stubAddress ''1'' None None)
       = Inl (SdkError ''UNSTAKE_ERROR'' [] (Some (Error [Text ''IntegerOutOfRangeError''])))"
  by (simp add: unstake_def autocompoundBalanceOf_def io_defs Let_def rejectingLibrary_def
        stub_defs throwError_def handleError_def fromWeiToEther_def bn_lt_def orDefault_def
        UINT16_MAX_def)

subsection \<open>Ethereum: claiming a withdraw request\<close>

text \<open>
  C2. For a valid address, with \<open>(requested, readyForClaim)\<close> the pair the on-chain
  withdraw-request read gives (and the two codes in the adapter's table):
  \<open>claimWithdrawRequest\<close> fails with \<open>ZERO_UNSTAKE_ERROR\<close> when \<open>requested\<close> is zero, fails
  with \<open>NOT_FILLED_UNSTAKE_MESSAGE\<close> when \<open>requested\<close> is not zero and \<open>readyForClaim\<close>
  differs from it, and it returns a transaction, or reaches the gas estimate at all, only
  when \<open>readyForClaim\<close> equals \<open>requested\<close>.
\<close>

theorem claimWithdrawRequest_checks:
  assumes "isAddress L address"
    and "readContract2 (client this) (contract_address (contractAccounting this))
           (contract_abi (contractAccounting this)) ''withdrawRequest'' [AStr address]
         = Inr (req, ready)"
    and "ERROR_MESSAGES this ''ZERO_UNSTAKE_ERROR'' \<noteq> None"
    and "ERROR_MESSAGES this ''NOT_FILLED_UNSTAKE_MESSAGE'' \<noteq> None"
  shows "(req = 0 \<longrightarrow> fst (claimWithdrawRequest L K this address)
            = Inl (SdkError ''ZERO_UNSTAKE_ERROR'' [] None))
       \<and> (req \<noteq> 0 \<and> ready \<noteq> req \<longrightarrow> fst (claimWithdrawRequest L K this address)
            = Inl (SdkError ''NOT_FILLED_UNSTAKE_MESSAGE'' [] None))
       \<and> (\<forall>tx. fst (claimWithdrawRequest L K this address) = Inr tx \<longrightarrow> ready = req)
       \<and> (\<forall>t d a. EstimateGas t d a \<in> set (snd (claimWithdrawRequest L K this address))
            \<longrightarrow> ready = req)"
  using assms(1) assms(3) assms(4)
  by (auto simp add: claimWithdrawRequest_def withdrawRequest_read [OF assms(1) assms(2)]
        io_defs getTransaction_def throwError_known handleError_known
        fromWeiToEther_isZero fromWeiToEther_eq split: sum.splits if_splits)

theorem claimWithdrawRequest_checks_witness:
  "fst (claimWithdrawRequest stubLibrary stubEthConstants
          (stubEthereum (stubClient [] (0, 0) (Inr 21000))) stubAddress)
     = Inl (SdkError ''ZERO_UNSTAKE_ERROR'' [] None)
   \<and> fst (claimWithdrawRequest stubLibrary stubEthConstants
          (stubEthereum (stubClient [] (2000000000000000000, 1000000000000000000)
             (Inr 21000))) stubAddress)
     = Inl (SdkError ''NOT_FILLED_UNSTAKE_MESSAGE'' [] None)
   \<and> claimWithdrawRequest stubLibrary stubEthConstants
          (stubEthereum (stubClient [] (2000000000000000000, 2000000000000000000)
             (Inr 21000))) stubAddress
     = (Inr \<lparr>tx_from = stubAddress, tx_to = ''0xAcc'', tx_value = Finite 0,
              tx_gasLimit = Double 241000, tx_data = ''claimWithdrawRequest''\<rparr>,
        [ReadContract ''0xAcc'' ABI_CONTRACT_ACCOUNTING ''withdrawRequest'' [AStr stubAddress],
         EstimateGas ''0xAcc'' ''claimWithdrawRequest'' stubAddress])
   \<and> (2000000000000000000 :: int) = 2000000000000000000"
proof -
  let ?E0 = "stubEthereum (stubClient [] (0, 0) (Inr 21000))"
  let ?E1 = "stubEthereum (stubClient [] (2000000000000000000, 1000000000000000000)
             (Inr 21000))"
  let ?E2 = "stubEthereum (stubClient [] (2000000000000000000, 2000000000000000000)
             (Inr 21000))"
  have h1: "isAddress stubLibrary stubAddress"
    by (simp add: stub_defs)
  have k0: "ERROR_MESSAGES ?E0 ''ZERO_UNSTAKE_ERROR'' \<noteq> None"
       "ERROR_MESSAGES ?E0 ''NOT_FILLED_UNSTAKE_MESSAGE'' \<noteq> None"
    by (simp_all add: stubEthereum_def stubMessages_def)
  have k1: "ERROR_MESSAGES ?E1 ''ZERO_UNSTAKE_ERROR'' \<noteq> None"
       "ERROR_MESSAGES ?E1 ''NOT_FILLED_UNSTAKE_MESSAGE'' \<noteq> None"
    by (simp_all add: stubEthereum_def stubMessages_def)
  have k2: "ERROR_MESSAGES ?E2 ''ZERO_UNSTAKE_ERROR'' \<noteq> None"
       "ERROR_MESSAGES ?E2 ''NOT_FILLED_UNSTAKE_MESSAGE'' \<noteq> None"
    by (simp_all add: stubEthereum_def stubMessages_def)
  have g0: "readContract2 (client ?E0) (contract_address (contractAccounting ?E0))
           (contract_abi (contractAccounting ?E0)) ''withdrawRequest'' [AStr stubAddress]
         = Inr (0, 0)"
    by (simp add: stubEthereum_def stubClient_def)
  have g1: "readContract2 (client ?E1) (contract_address (contractAccounting ?E1))
           (contract_abi (contractAccounting ?E1)) ''withdrawRequest'' [AStr stubAddress]
         = Inr (2000000000000000000, 1000000000000000000)"
    by (simp add: stubEthereum_def stubClient_def)
  have g2: "readContract2 (client ?E2) (contract_address (contractAccounting ?E2))
           (contract_abi (contractAccounting ?E2)) ''withdrawRequest'' [AStr stubAddress]
         = Inr (2000000000000000000, 2000000000000000000)"
    by (simp add: stubEthereum_def stubClient_def)
  note T0 = claimWithdrawRequest_checks [OF h1 g0 k0, of stubEthConstants]
  note T1 = claimWithdrawRequest_checks [OF h1 g1 k1, of stubEthConstants]
  note T2 = claimWithdrawRequest_checks [OF h1 g2 k2, of stubEthConstants]
  have r0: "fst (claimWithdrawRequest stubLibrary stubEthConstants ?E0 stubAddress)
     = Inl (SdkError ''ZERO_UNSTAKE_ERROR'' [] None)"
    using T0 [THEN conjunct1] by simp
  have r1: "fst (claimWithdrawRequest stubLibrary stubEthConstants ?E1 stubAddress)
     = Inl (SdkError ''NOT_FILLED_UNSTAKE_MESSAGE'' [] None)"
    using T1 [THEN conjunct2, THEN conjunct1] by simp
  have r2: "claimWithdrawRequest stubLibrary stubEthConstants ?E2 stubAddress
     = (Inr \<lparr>tx_from = stubAddress, tx_to = ''0xAcc'', tx_value = Finite 0,
              tx_gasLimit = Double 241000, tx_data = ''claimWithdrawRequest''\<rparr>,
        [ReadContract ''0xAcc'' ABI_CONTRACT_ACCOUNTING ''withdrawRequest'' [AStr stubAddress],
         EstimateGas ''0xAcc'' ''claimWithdrawRequest'' stubAddress])"
    by (simp add: claimWithdrawRequest_def withdrawRequest_def io_defs getTransaction_def
          calculateGasLimit_def roundToDouble_def stub_defs bn_isZero_def bn_eq_def
          fromWeiToEther_def)
  have r3: "(2000000000000000000 :: int) = 2000000000000000000"
    by (rule T2 [THEN conjunct2, THEN conjunct2, THEN conjunct1, rule_format])
       (simp add: r2)
  show ?thesis using r0 r1 r2 r3 by blast
qed

subsection \<open>Ethereum: unstaking from the pending balance\<close>

text \<open>
  C3, amended. For a valid address, with \<open>P\<close> the pending balance the on-chain read gives
  and \<open>A\<close> the amount: \<open>unstakePending\<close> fails when \<open>P\<close> is zero and fails when \<open>A > P\<close>;
  otherwise, when the remainder \<open>P - A\<close> is not zero and is below the \<open>minStakeAmount\<close>
  read, it fails with \<open>INSUFFICIENT_PENDING_BALANCE_ERROR\<close> (a code of the adapter's
  table); and when the remainder is zero, \<open>minStakeAmount\<close> is not read, and the call
  returns the transaction provided the amount parses, the call data is encoded and the gas
  estimate succeeds; when the encoding fails, it fails with what \<open>handleError\<close> makes of
  that failure under \<open>UNSTAKE_PENDING_ERROR\<close>, after the one read.
\<close>

theorem unstakePending_checks:
  assumes "isAddress L address"
    and "readContract (client this) (contract_address (contractAccounting this))
           (contract_abi (contractAccounting this)) ''pendingBalanceOf'' [AStr address]
         = Inr p"
    and "ERROR_MESSAGES this ''INSUFFICIENT_PENDING_BALANCE_ERROR'' \<noteq> None"
  shows "(p = 0 \<longrightarrow> isl (fst (unstakePending L K this address amount)))
       \<and> (bn_gt (newBigNumber L amount) (fromWeiToEther p)
            \<longrightarrow> isl (fst (unstakePending L K this address amount)))
       \<and> (\<forall>m. p \<noteq> 0 \<and> \<not> bn_gt (newBigNumber L amount) (fromWeiToEther p)
            \<and> \<not> bn_isZero (bn_minus (fromWeiToEther p) (newBigNumber L amount))
            \<and> readContract (client this) (contract_address (contractPool this))
                (contract_abi (contractPool this)) ''minStakeAmount'' [] = Inr m
            \<and> bn_lt (bn_minus (fromWeiToEther p) (newBigNumber L amount)) (fromWeiToEther m)
            \<longrightarrow> fst (unstakePending L K this address amount)
                = Inl (SdkError ''INSUFFICIENT_PENDING_BALANCE_ERROR''
                        [Number (fromWeiToEther m)] None))
       \<and> (\<forall>wei data gas. p \<noteq> 0
            \<and> bn_isZero (bn_minus (fromWeiToEther p) (newBigNumber L amount))
            \<and> parseUnits L amount 18 = Inr wei
            \<and> encodeFunctionData L (contract_abi (contractPool this)) ''unstakePending''
                 [AInt wei] = Inr data
            \<and> estimateGas (client this) (contract_address (contractPool this)) data address
                 = Inr gas
            \<longrightarrow> unstakePending L K this address amount =
                (Inr \<lparr>tx_from = address, tx_to = contract_address (contractPool this),
                      tx_value = Finite 0, tx_gasLimit = calculateGasLimit K gas,
                      tx_data = data\<rparr>,
                 [ReadContract (contract_address (contractAccounting this))
                    (contract_abi (contractAccounting this)) ''pendingBalanceOf''
                    [AStr address],
                  EstimateGas (contract_address (contractPool this)) data address]))
       \<and> (\<forall>wei e. p \<noteq> 0
            \<and> bn_isZero (bn_minus (fromWeiToEther p) (newBigNumber L amount))
            \<and> parseUnits L amount 18 = Inr wei
            \<and> encodeFunctionData L (contract_abi (contractPool this)) ''unstakePending''
                 [AInt wei] = Inl e
            \<longrightarrow> unstakePending L K this address amount =
                (Inl (handleError this ''UNSTAKE_PENDING_ERROR'' e),
                 [ReadContract (contract_address (contractAccounting this))
                    (contract_abi (contractAccounting this)) ''pendingBalanceOf''
                    [AStr address]]))"
proof -
  note pb = pendingBalanceOf_read [OF assms(1) assms(2)]
  have c1: "p = 0 \<longrightarrow> isl (fst (unstakePending L K this address amount))"
    using assms(1) by (simp add: unstakePending_def pb io_defs fromWeiToEther_isZero)
  have c2: "bn_gt (newBigNumber L amount) (fromWeiToEther p)
            \<longrightarrow> isl (fst (unstakePending L K this address amount))"
    using assms(1) by (simp add: unstakePending_def pb io_defs Let_def)
  have c3: "\<forall>m. p \<noteq> 0 \<and> \<not> bn_gt (newBigNumber L amount) (fromWeiToEther p)
            \<and> \<not> bn_isZero (bn_minus (fromWeiToEther p) (newBigNumber L amount))
            \<and> readContract (client this) (contract_address (contractPool this))
                (contract_abi (contractPool this)) ''minStakeAmount'' [] = Inr m
            \<and> bn_lt (bn_minus (fromWeiToEther p) (newBigNumber L amount)) (fromWeiToEther m)
            \<longrightarrow> fst (unstakePending L K this address amount)
                = Inl (SdkError ''INSUFFICIENT_PENDING_BALANCE_ERROR''
                        [Number (fromWeiToEther m)] None)"
    using assms(1) assms(3)
    by (auto simp add: unstakePending_def pb io_defs Let_def fromWeiToEther_isZero
          minStakeAmount_read throwError_known handleError_known)
  have ngt: "\<not> bn_gt (newBigNumber L amount) (fromWeiToEther p)"
    if "bn_isZero (bn_minus (fromWeiToEther p) (newBigNumber L amount))"
  proof -
    from that have "bn_minus (fromWeiToEther p) (newBigNumber L amount) = Finite 0"
      by (simp add: bn_isZero_def)
    then have "newBigNumber L amount = fromWeiToEther p"
      by (cases "newBigNumber L amount")
         (simp_all add: bn_minus_def bn_plus_def bn_negated_def fromWeiToEther_def)
    then show ?thesis
      by (simp add: bn_gt_def bn_lt_def fromWeiToEther_def)
  qed
  have c4: "\<forall>wei data gas. p \<noteq> 0
            \<and> bn_isZero (bn_minus (fromWeiToEther p) (newBigNumber L amount))
            \<and> parseUnits L amount 18 = Inr wei
            \<and> encodeFunctionData L (contract_abi (contractPool this)) ''unstakePending''
                 [AInt wei] = Inr data
            \<and> estimateGas (client this) (contract_address (contractPool this)) data address
                 = Inr gas
            \<longrightarrow> unstakePending L K this address amount =
                (Inr \<lparr>tx_from = address, tx_to = contract_address (contractPool this),
                      tx_value = Finite 0, tx_gasLimit = calculateGasLimit K gas,
                      tx_data = data\<rparr>,
                 [ReadContract (contract_address (contractAccounting this))
                    (contract_abi (contractAccounting this)) ''pendingBalanceOf''
                    [AStr address],
                  EstimateGas (contract_address (contractPool this)) data address])"
    using assms(1) ngt
    by (simp add: unstakePending_def pb io_defs Let_def fromWeiToEther_isZero
          getTransaction_def)
  have c5: "\<forall>wei e. p \<noteq> 0
            \<and> bn_isZero (bn_minus (fromWeiToEther p) (newBigNumber L amount))
            \<and> parseUnits L amount 18 = Inr wei
            \<and> encodeFunctionData L (contract_abi (contractPool this)) ''unstakePending''
                 [AInt wei] = Inl e
            \<longrightarrow> unstakePending L K this address amount =
                (Inl (handleError this ''UNSTAKE_PENDING_ERROR'' e),
                 [ReadContract (contract_address (contractAccounting this))
                    (contract_abi (contractAccounting this)) ''pendingBalanceOf''
                    [AStr address]])"
    using assms(1) ngt
    by (simp add: unstakePending_def pb io_defs Let_def fromWeiToEther_isZero)
  show ?thesis using c1 c2 c3 c4 c5 by blast
qed

theorem unstakePending_checks_witness:
  "isl (fst (unstakePending stubLibrary stubEthConstants
          (stubEthereum (stubClient [(''pendingBalanceOf'', 0)] (0, 0) (Inr 21000)))
          stubAddress ''1''))
   \<and> isl (fst (unstakePending stubLibrary stubEthConstants
          (stubEthereum (stubClient
             [(''pendingBalanceOf'', 2000000000000000000),
              (''minStakeAmount'', 2000000000000000000)] (0, 0) (Inr 21000)))
          stubAddress ''3''))
   \<and> fst (unstakePending stubLibrary stubEthConstants
          (stubEthereum (stubClient
             [(''pendingBalanceOf'', 2000000000000000000),
              (''minStakeAmount'', 2000000000000000000)] (0, 0) (Inr 21000)))
          stubAddress ''1'')
     = Inl (SdkError ''INSUFFICIENT_PENDING_BALANCE_ERROR'' [Number (Finite 2)] None)
   \<and> unstakePending stubLibrary stubEthConstants
          (stubEthereum (stubClient
             [(''pendingBalanceOf'', 2000000000000000000),
              (''minStakeAmount'', 2000000000000000000)] (0, 0) (Inr 21000)))
          stubAddress ''2''
     = (Inr \<lparr>tx_from = stubAddress, tx_to = ''0xPool'', tx_value = Finite 0,
              tx_gasLimit = Double 241000, tx_data = ''unstakePending''\<rparr>,
        [ReadContract ''0xAcc'' ABI_CONTRACT_ACCOUNTING ''pendingBalanceOf'' [AStr stubAddress],
         EstimateGas ''0xPool'' ''unstakePending'' stubAddress])
   \<and> unstakePending rejectingLibrary stubEthConstants
          (stubEthereum (stubClient
             [(''pendingBalanceOf'', 2000000000000000000),
              (''minStakeAmount'', 2000000000000000000)] (0, 0) (Inr 21000)))
          stubAddress ''2''
     = (Inl (SdkError ''UNSTAKE_PENDING_ERROR'' []
               (Some (Error [Text ''IntegerOutOfRangeError'']))),
        [ReadContract ''0xAcc'' ABI_CONTRACT_ACCOUNTING ''pendingBalanceOf''
           [AStr stubAddress]])"
proof -
  let ?Z = "stubEthereum (stubClient [(''pendingBalanceOf'', 0)] (0, 0) (Inr 21000))"
  let ?E = "stubEthereum (stubClient
             [(''pendingBalanceOf'', 2000000000000000000),
              (''minStakeAmount'', 2000000000000000000)] (0, 0) (Inr 21000))"
  have h1: "isAddress stubLibrary stubAddress"
    by (simp add: stub_defs)
  have k0: "ERROR_MESSAGES ?Z ''INSUFFICIENT_PENDING_BALANCE_ERROR'' \<noteq> None"
    by (simp add: stubEthereum_def stubMessages_def)
  have k: "ERROR_MESSAGES ?E ''INSUFFICIENT_PENDING_BALANCE_ERROR'' \<noteq> None"
    by (simp add: stubEthereum_def stubMessages_def)
  have g0: "readContract (client ?Z) (contract_address (contractAccounting ?Z))
           (contract_abi (contractAccounting ?Z)) ''pendingBalanceOf'' [AStr stubAddress]
         = Inr 0"
    by (simp add: stubEthereum_def stubClient_def)
  have g: "readContract (client ?E) (contract_address (contractAccounting ?E))
           (contract_abi (contractAccounting ?E)) ''pendingBalanceOf'' [AStr stubAddress]
         = Inr 2000000000000000000"
    by (simp add: stubEthereum_def stubClient_def)
  have f: "fromWeiToEther 2000000000000000000 = Finite 2"
    by (simp add: fromWeiToEther_def)
  have n1: "newBigNumber stubLibrary ''1'' = Finite 1"
    and n2: "newBigNumber stubLibrary ''2'' = Finite 2"
    and n3: "newBigNumber stubLibrary ''3'' = Finite 3"
    by (simp_all add: stubLibrary_def)
  note T0 = unstakePending_checks [OF h1 g0 k0, of stubEthConstants "''1''"]
  have r0: "isl (fst (unstakePending stubLibrary stubEthConstants ?Z stubAddress ''1''))"
    using T0 [THEN conjunct1] by simp
  note T3 = unstakePending_checks [OF h1 g k, of stubEthConstants "''3''"]
  have "bn_gt (newBigNumber stubLibrary ''3'') (fromWeiToEther 2000000000000000000)"
    by (simp add: n3 f bn_gt_def bn_lt_def)
  then have r3: "isl (fst (unstakePending stubLibrary stubEthConstants ?E stubAddress ''3''))"
    by (rule T3 [THEN conjunct2, THEN conjunct1, rule_format])
  note T1 = unstakePending_checks [OF h1 g k, of stubEthConstants "''1''"]
  have c1: "(2000000000000000000 :: int) \<noteq> 0
     \<and> \<not> bn_gt (newBigNumber stubLibrary ''1'') (fromWeiToEther 2000000000000000000)
     \<and> \<not> bn_isZero (bn_minus (fromWeiToEther 2000000000000000000)
            (newBigNumber stubLibrary ''1''))
     \<and> readContract (client ?E) (contract_address (contractPool ?E))
           (contract_abi (contractPool ?E)) ''minStakeAmount'' [] = Inr 2000000000000000000
     \<and> bn_lt (bn_minus (fromWeiToEther 2000000000000000000) (newBigNumber stubLibrary ''1''))
          (fromWeiToEther 2000000000000000000)"
    by (simp add: n1 f bn_gt_def bn_lt_def bn_minus_def bn_plus_def bn_negated_def
          bn_isZero_def stubEthereum_def stubClient_def)
  have r1: "fst (unstakePending stubLibrary stubEthConstants ?E stubAddress ''1'')
     = Inl (SdkError ''INSUFFICIENT_PENDING_BALANCE_ERROR''
             [Number (fromWeiToEther 2000000000000000000)] None)"
    by (rule T1 [THEN conjunct2, THEN conjunct2, THEN conjunct1, rule_format, OF c1])
  note T2 = unstakePending_checks [OF h1 g k, of stubEthConstants "''2''"]
  have c2: "(2000000000000000000 :: int) \<noteq> 0
     \<and> bn_isZero (bn_minus (fromWeiToEther 2000000000000000000)
          (newBigNumber stubLibrary ''2''))
     \<and> parseUnits stubLibrary ''2'' 18 = Inr 2000000000000000000
     \<and> encodeFunctionData stubLibrary (contract_abi (contractPool ?E)) ''unstakePending''
          [AInt 2000000000000000000] = Inr ''unstakePending''
     \<and> estimateGas (client ?E) (contract_address (contractPool ?E)) ''unstakePending''
          stubAddress = Inr 21000"
    by (simp add: n2 f bn_minus_def bn_plus_def bn_negated_def bn_isZero_def
          stubEthereum_def stubClient_def stubLibrary_def)
  note r2 = T2 [THEN conjunct2, THEN conjunct2, THEN conjunct2, THEN conjunct1, rule_format,
      OF c2]
  have h1': "isAddress rejectingLibrary stubAddress"
    by (simp add: rejectingLibrary_def stub_defs)
  note T5 = unstakePending_checks [OF h1' g k, of stubEthConstants "''2''"]
  have c5: "(2000000000000000000 :: int) \<noteq> 0
     \<and> bn_isZero (bn_minus (fromWeiToEther 2000000000000000000)
          (newBigNumber rejectingLibrary ''2''))
     \<and> parseUnits rejectingLibrary ''2'' 18 = Inr 2000000000000000000
     \<and> encodeFunctionData rejectingLibrary (contract_abi (contractPool ?E))
          ''unstakePending'' [AInt 2000000000000000000]
         = Inl (Error [Text ''IntegerOutOfRangeError''])"
    by (simp add: f bn_minus_def bn_plus_def bn_negated_def bn_isZero_def
          rejectingLibrary_def stubLibrary_def)
  note r5 = T5 [THEN conjunct2, THEN conjunct2, THEN conjunct2, THEN conjunct2, rule_format,
      OF c5]
  show ?thesis
    unfolding r2 r1 r5
    using r0 r3
    by (simp add: f stub_defs calculateGasLimit_def roundToDouble_def handleError_def)
qed

text \<open>
  The claim as written fails where the remainder is zero and the gas estimate fails: the
  pending balance is 2 ETH, 2 ETH are requested, and the call fails with
  \<open>UNSTAKE_PENDING_ERROR\<close>.
\<close>

theorem unstakePending_gas_estimate_fails:
  "isAddress stubLibrary stubAddress
   \<and> readContract
        (client (stubEthereum (stubClient [(''pendingBalanceOf'', 2000000000000000000)]
           (0, 0) (Inl (Error [Text ''gas estimation failed'']))))) ''0xAcc''
        ABI_CONTRACT_ACCOUNTING ''pendingBalanceOf'' [AStr stubAddress]
       = Inr 2000000000000000000
   \<and> bn_minus (fromWeiToEther 2000000000000000000) (newBigNumber stubLibrary ''2'')
       = Finite 0
   \<and> fst (unstakePending stubLibrary stubEthConstants
        (stubEthereum (stubClient [(''pendingBalanceOf'', 2000000000000000000)] (0, 0)
           (Inl (Error [Text ''gas estimation failed'']))))
        stubAddress ''2'')
       = Inl (SdkError ''UNSTAKE_PENDING_ERROR'' []
               (Some (Error [Text ''gas estimation failed''])))"
  by (simp add: unstakePending_def pendingBalanceOf_def io_defs Let_def getTransaction_def
        stub_defs throwError_def handleError_def fromWeiToEther_def bn_lt_def bn_gt_def
        bn_isZero_def bn_minus_def bn_plus_def bn_negated_def)

subsection \<open>Polygon: claiming an undelegation\<close>

lemma getUnbond_read:
  assumes "readContract (client_p this) (contract_address (contract_buy this))
             (contract_abi (contract_buy this)) ''unbondNonces'' [AStr address] = Inr latest"
    and "readContract2 (client_p this) (contract_address (contract_buy this))
             (contract_abi (contract_buy this)) ''unbonds_new''
             [AStr address, AInt (if unbondNonce = 0 then latest else unbondNonce)]
           = Inr (amount, epoch)"
  shows "fst (getUnbond L this address (Some unbondNonce)) = Inr
           \<lparr>unbond_amount = newBigNumber L (formatUnits L amount 18),
            withdrawEpoch = epoch,
            unbondNonces = (if unbondNonce = 0 then latest else unbondNonce)\<rparr>"
  using assms by (simp add: getUnbond_def getUnbondNonces_def io_defs orDefault_def Let_def)

text \<open>
  C4. For every address, nonce and \<open>isPOL\<close> flag, with the unbond record resolved by the
  two on-chain reads (the latest nonce stands for nonce 0): \<open>claimUndelegate\<close> fails with
  the message \<open>Nothing to claim\<close> when the record's amount is zero; otherwise, with the
  current epoch read, it fails with the epoch-delay message when
  \<open>currentEpoch < withdrawEpoch + WITHDRAW_EPOCH_DELAY\<close>; otherwise it returns a
  transaction whose call data encodes \<open>unstakeClaimTokens_newPOL\<close> when \<open>isPOL\<close> is true
  and \<open>unstakeClaimTokens_new\<close> when it is false, applied to the resolved nonce (or, should
  the encoder reject that call, the encoder's failure).
\<close>

theorem claimUndelegate_checks:
  assumes "readContract (client_p this) (contract_address (contract_buy this))
             (contract_abi (contract_buy this)) ''unbondNonces'' [AStr address] = Inr latest"
    and "readContract2 (client_p this) (contract_address (contract_buy this))
             (contract_abi (contract_buy this)) ''unbonds_new''
             [AStr address,
              AInt (if orDefault unbondNonce 0 = 0 then latest else orDefault unbondNonce 0)]
           = Inr (amount, epoch)"
  shows "(bn_isZero (newBigNumber L (formatUnits L amount 18)) \<longrightarrow>
            fst (claimUndelegate L P this address unbondNonce isPOL)
              = Inl (Error [Text ''Nothing to claim'']))
       \<and> (\<forall>currentEpoch.
            \<not> bn_isZero (newBigNumber L (formatUnits L amount 18))
            \<and> readContract (client_p this) (contract_address (contract_staking this))
                 (contract_abi (contract_staking this)) ''currentEpoch'' [] = Inr currentEpoch
            \<and> currentEpoch < epoch + WITHDRAW_EPOCH_DELAY P
            \<longrightarrow> fst (claimUndelegate L P this address unbondNonce isPOL)
                = Inl (Error [Text ''Current epoch less than withdraw delay'']))
       \<and> (\<forall>currentEpoch.
            \<not> bn_isZero (newBigNumber L (formatUnits L amount 18))
            \<and> readContract (client_p this) (contract_address (contract_staking this))
                 (contract_abi (contract_staking this)) ''currentEpoch'' [] = Inr currentEpoch
            \<and> \<not> currentEpoch < epoch + WITHDRAW_EPOCH_DELAY P
            \<longrightarrow> fst (claimUndelegate L P this address unbondNonce isPOL)
                = (case encodeFunctionData L (contract_abi (contract_buy this))
                         (if orDefault isPOL False then ''unstakeClaimTokens_newPOL''
                          else ''unstakeClaimTokens_new'')
                         [AInt (if orDefault unbondNonce 0 = 0 then latest
                                else orDefault unbondNonce 0)] of
                     Inl e \<Rightarrow> Inl e
                   | Inr data \<Rightarrow> Inr
                       \<lparr>req_from = address, req_to = ADDRESS_CONTRACT_BUY P,
                        req_gasLimit = CLAIM_UNDELEGATE_BASE_GAS P, req_data = data\<rparr>))"
proof -
  obtain t where u: "getUnbond L this address (Some (orDefault unbondNonce 0)) =
      (Inr \<lparr>unbond_amount = newBigNumber L (formatUnits L amount 18),
            withdrawEpoch = epoch,
            unbondNonces = (if orDefault unbondNonce 0 = 0 then latest
                            else orDefault unbondNonce 0)\<rparr>, t)"
    using getUnbond_read [OF assms(1) assms(2), of L]
    by (cases "getUnbond L this address (Some (orDefault unbondNonce 0))") simp
  show ?thesis
    by (simp add: claimUndelegate_def Let_def u io_defs getCurrentEpoch_def
          bn_of_bigint_lt_plus split: sum.splits)
qed

theorem claimUndelegate_checks_witness:
  "fst (claimUndelegate stubLibrary stubPolygonConstants
          (stubPolygon (stubClient [(''unbondNonces'', 3), (''currentEpoch'', 150)]
             (0, 100) (Inr 21000)))
          stubAddress None None)
     = Inl (Error [Text ''Nothing to claim''])
   \<and> fst (claimUndelegate stubLibrary stubPolygonConstants
          (stubPolygon (stubClient [(''unbondNonces'', 3), (''currentEpoch'', 150)]
             (5000000000000000000, 100) (Inr 21000)))
          stubAddress None None)
     = Inl (Error [Text ''Current epoch less than withdraw delay''])
   \<and> fst (claimUndelegate stubLibrary stubPolygonConstants
          (stubPolygon (stubClient [(''unbondNonces'', 3), (''currentEpoch'', 200)]
             (5000000000000000000, 100) (Inr 21000)))
          stubAddress (Some 2) (Some True))
     = Inr \<lparr>req_from = stubAddress, req_to = ''0xBuy'', req_gasLimit = 200000,
            req_data = ''unstakeClaimTokens_newPOL''\<rparr>
   \<and> fst (claimUndelegate stubLibrary stubPolygonConstants
          (stubPolygon (stubClient [(''unbondNonces'', 3), (''currentEpoch'', 200)]
             (5000000000000000000, 100) (Inr 21000)))
          stubAddress None (Some False))
     = Inr \<lparr>req_from = stubAddress, req_to = ''0xBuy'', req_gasLimit = 200000,
            req_data = ''unstakeClaimTokens_new''\<rparr>"
proof -
  let ?A = "stubPolygon (stubClient [(''unbondNonces'', 3), (''currentEpoch'', 150)]
             (0, 100) (Inr 21000))"
  let ?B = "stubPolygon (stubClient [(''unbondNonces'', 3), (''currentEpoch'', 150)]
             (5000000000000000000, 100) (Inr 21000))"
  let ?C = "stubPolygon (stubClient [(''unbondNonces'', 3), (''currentEpoch'', 200)]
             (5000000000000000000, 100) (Inr 21000))"
  have a1: "readContract (client_p ?A) (contract_address (contract_buy ?A))
             (contract_abi (contract_buy ?A)) ''unbondNonces'' [AStr stubAddress] = Inr 3"
    by (simp add: stubp_defs)
  have a2: "readContract2 (client_p ?A) (contract_address (contract_buy ?A))
             (contract_abi (contract_buy ?A)) ''unbonds_new''
             [AStr stubAddress, AInt (if orDefault None 0 = 0 then 3 else orDefault None 0)]
           = Inr (0, 100)"
    by (simp add: stubp_defs)
  have b1: "readContract (client_p ?B) (contract_address (contract_buy ?B))
             (contract_abi (contract_buy ?B)) ''unbondNonces'' [AStr stubAddress] = Inr 3"
    by (simp add: stubp_defs)
  have b2: "readContract2 (client_p ?B) (contract_address (contract_buy ?B))
             (contract_abi (contract_buy ?B)) ''unbonds_new''
             [AStr stubAddress, AInt (if orDefault None 0 = 0 then 3 else orDefault None 0)]
           = Inr (5000000000000000000, 100)"
    by (simp add: stubp_defs)
  have c1: "readContract (client_p ?C) (contract_address (contract_buy ?C))
             (contract_abi (contract_buy ?C)) ''unbondNonces'' [AStr stubAddress] = Inr 3"
    by (simp add: stubp_defs)
  have c2: "readContract2 (client_p ?C) (contract_address (contract_buy ?C))
             (contract_abi (contract_buy ?C)) ''unbonds_new''
             [AStr stubAddress,
              AInt (if orDefault (Some 2) 0 = 0 then 3 else orDefault (Some 2) 0)]
           = Inr (5000000000000000000, 100)"
    by (simp add: stubp_defs)
  have c3: "readContract2 (client_p ?C) (contract_address (contract_buy ?C))
             (contract_abi (contract_buy ?C)) ''unbonds_new''
             [AStr stubAddress, AInt (if orDefault None 0 = 0 then 3 else orDefault None 0)]
           = Inr (5000000000000000000, 100)"
    by (simp add: stubp_defs)
  have z: "bn_isZero (newBigNumber stubLibrary (formatUnits stubLibrary 0 18))"
    by (simp add: stubLibrary_def bn_isZero_def)
  have nz: "\<not> bn_isZero (newBigNumber stubLibrary
              (formatUnits stubLibrary 5000000000000000000 18))"
    by (simp add: stubLibrary_def bn_isZero_def)
  have eb: "readContract (client_p ?B) (contract_address (contract_staking ?B))
              (contract_abi (contract_staking ?B)) ''currentEpoch'' [] = Inr 150
            \<and> (150 :: int) < 100 + WITHDRAW_EPOCH_DELAY stubPolygonConstants"
    by (simp add: stubp_defs)
  have ec: "readContract (client_p ?C) (contract_address (contract_staking ?C))
              (contract_abi (contract_staking ?C)) ''currentEpoch'' [] = Inr 200
            \<and> \<not> (200 :: int) < 100 + WITHDRAW_EPOCH_DELAY stubPolygonConstants"
    by (simp add: stubp_defs)
  note r1 = claimUndelegate_checks [OF a1 a2, of stubLibrary stubPolygonConstants None,
      THEN conjunct1, rule_format, OF z]
  note r2 = claimUndelegate_checks [OF b1 b2, of stubLibrary stubPolygonConstants None,
      THEN conjunct2, THEN conjunct1, rule_format, OF conjI [OF nz eb]]
  note r3 = claimUndelegate_checks [OF c1 c2, of stubLibrary stubPolygonConstants "Some True",
      THEN conjunct2, THEN conjunct2, rule_format, OF conjI [OF nz ec]]
  note r4 = claimUndelegate_checks [OF c1 c3, of stubLibrary stubPolygonConstants "Some False",
      THEN conjunct2, THEN conjunct2, rule_format, OF conjI [OF nz ec]]
  show ?thesis
    unfolding r1 r2 r3 r4 by (simp add: stubp_defs)
qed

subsection \<open>Ethereum: the interchange allowance\<close>

lemma autocompoundBalanceOf_trace:
  "ev \<in> set (snd (autocompoundBalanceOf L this address)) \<Longrightarrow>
     ev = ReadContract (contract_address (contractAccounting this))
            (contract_abi (contractAccounting this)) ''autocompoundBalanceOf'' [AStr address]"
  by (auto simp add: autocompoundBalanceOf_def io_defs split: sum.splits if_splits)

lemma unstake_estimate_data:
  assumes "EstimateGas t d a \<in> set (snd (unstake L K this address amount n s))"
  shows "\<exists>wei src. encodeFunctionData L (contract_abi (contractPool this)) ''unstake''
           [AInt wei, AInt (min (orDefault n 0) UINT16_MAX), AInt src] = Inr d"
proof -
  obtain r tr where b: "autocompoundBalanceOf L this address = (r, tr)"
    by (cases "autocompoundBalanceOf L this address")
  have no: "EstimateGas t d a \<notin> set tr"
    using autocompoundBalanceOf_trace [of "EstimateGas t d a" L this address] b by auto
  show ?thesis
    using assms no
    by (auto simp add: unstake_def b io_defs Let_def getTransaction_def min_def
          split: sum.splits if_splits)
qed

lemma unstake_result_data:
  assumes "fst (unstake L K this address amount n s) = Inr tx"
  shows "\<exists>wei src. encodeFunctionData L (contract_abi (contractPool this))
           ''unstake'' [AInt wei, AInt (min (orDefault n 0) UINT16_MAX), AInt src]
             = Inr (tx_data tx)"
proof -
  obtain r tr where b: "autocompoundBalanceOf L this address = (r, tr)"
    by (cases "autocompoundBalanceOf L this address")
  show ?thesis
    using assms
    by (auto simp add: unstake_def b io_defs Let_def getTransaction_def min_def
          split: sum.splits if_splits) blast+
qed

lemma simulateUnstake_call_args:
  assumes "SimulateContract a c i f xs
             \<in> set (snd (simulateUnstake L this address amount n s))"
  shows "f = ''unstake'' \<and> (\<exists>wei src.
           xs = [AInt wei, AInt (min (orDefault n 1) UINT16_MAX), AInt src])"
proof -
  obtain r tr where b: "autocompoundBalanceOf L this address = (r, tr)"
    by (cases "autocompoundBalanceOf L this address")
  have no: "SimulateContract a c i f xs \<notin> set tr"
    using autocompoundBalanceOf_trace [of "SimulateContract a c i f xs" L this address] b
    by auto
  show ?thesis
    using assms no
    by (auto simp add: simulateUnstake_def b io_defs Let_def min_def
          split: sum.splits if_splits)
qed

lemma unstake_clamp_eq:
  "unstake L K this address amount (Some n) s
     = unstake L K this address amount (Some (min n UINT16_MAX)) s"
  by (simp add: unstake_def orDefault_def Let_def min_def)

lemma simulateUnstake_clamp_eq:
  "simulateUnstake L this address amount (Some n) s
     = simulateUnstake L this address amount (Some (min n UINT16_MAX)) s"
  by (simp add: simulateUnstake_def orDefault_def Let_def min_def)

lemma stub_simulateUnstake:
  "n = 65535 \<or> n = 1 \<Longrightarrow>
   simulateUnstake stubLibrary
     (stubEthereum (stubClient [(''autocompoundBalanceOf'', 2000000000000000000)] (0, 0)
        (Inr 21000)))
     stubAddress ''1'' (Some n) None
   = (Inr (Finite 0),
      [ReadContract ''0xAcc'' ABI_CONTRACT_ACCOUNTING ''autocompoundBalanceOf''
         [AStr stubAddress],
       SimulateContract stubAddress ''0xPool'' ABI_CONTRACT_POOL ''unstake''
         [AInt 1000000000000000000, AInt n, AInt 0]])"
  by (auto simp add: simulateUnstake_def autocompoundBalanceOf_def io_defs Let_def stub_defs
        throwError_def handleError_def fromWeiToEther_def bn_lt_def orDefault_def
        UINT16_MAX_def)

lemma stub_unstake:
  "n = 65535 \<or> n = 0 \<Longrightarrow>
   unstake stubLibrary stubEthConstants
     (stubEthereum (stubClient [(''autocompoundBalanceOf'', 2000000000000000000)] (0, 0)
        (Inr 21000)))
     stubAddress ''1'' (Some n) None
   = (Inr \<lparr>tx_from = stubAddress, tx_to = ''0xPool'', tx_value = Finite 0,
            tx_gasLimit = Double 241000, tx_data = ''unstake''\<rparr>,
      [ReadContract ''0xAcc'' ABI_CONTRACT_ACCOUNTING ''autocompoundBalanceOf''
         [AStr stubAddress],
       EstimateGas ''0xPool'' ''unstake'' stubAddress])"
  by (auto simp add: unstake_def autocompoundBalanceOf_def io_defs Let_def stub_defs
        throwError_def handleError_def fromWeiToEther_def bn_lt_def orDefault_def
        UINT16_MAX_def getTransaction_def calculateGasLimit_def roundToDouble_def)

text \<open>
  C5. In \<open>unstake\<close> and \<open>simulateUnstake\<close>, an \<open>allowedInterchangeNum\<close> above 65535 behaves
  exactly as 65535 does, so no error comes from the oversized input; the value encoded in
  the call data of the gas estimate and of the returned transaction, and the value handed
  to the simulated call, is 65535 for an input above 65535 and the input itself otherwise.
\<close>

theorem allowedInterchangeNum_clamped:
  "unstake L K this address amount (Some n) s
     = unstake L K this address amount (Some (if 65535 < n then 65535 else n)) s
   \<and> simulateUnstake L this address amount (Some n) s
     = simulateUnstake L this address amount (Some (if 65535 < n then 65535 else n)) s
   \<and> (\<forall>t d a. EstimateGas t d a \<in> set (snd (unstake L K this address amount (Some n) s))
        \<longrightarrow> (\<exists>wei src. encodeFunctionData L (contract_abi (contractPool this))
               ''unstake'' [AInt wei, AInt (if 65535 < n then 65535 else n), AInt src] = Inr d))
   \<and> (\<forall>tx. fst (unstake L K this address amount (Some n) s) = Inr tx
        \<longrightarrow> (\<exists>wei src. encodeFunctionData L (contract_abi (contractPool this))
               ''unstake'' [AInt wei, AInt (if 65535 < n then 65535 else n), AInt src]
                 = Inr (tx_data tx)))
   \<and> (\<forall>a c i f xs. SimulateContract a c i f xs
          \<in> set (snd (simulateUnstake L this address amount (Some n) s))
        \<longrightarrow> f = ''unstake'' \<and> (\<exists>wei src.
               xs = [AInt wei, AInt (if 65535 < n then 65535 else n), AInt src]))"
proof -
  have m: "min (orDefault (Some n) d) UINT16_MAX = (if 65535 < n then 65535 else n)" for d
    by (simp add: orDefault_def UINT16_MAX_def min_def)
  have m': "min n UINT16_MAX = (if 65535 < n then 65535 else n)"
    by (simp add: UINT16_MAX_def min_def)
  show ?thesis
    using unstake_clamp_eq [of L K this address amount n s]
      simulateUnstake_clamp_eq [of L this address amount n s]
      unstake_estimate_data [of _ _ _ L K this address amount "Some n" s]
      unstake_result_data [of L K this address amount "Some n" s]
      simulateUnstake_call_args [of _ _ _ _ _ L this address amount "Some n" s]
    unfolding m m' by blast
qed

theorem allowedInterchangeNum_clamped_witness:
  "unstake stubLibrary stubEthConstants
     (stubEthereum (stubClient [(''autocompoundBalanceOf'', 2000000000000000000)] (0, 0)
        (Inr 21000)))
     stubAddress ''1'' (Some 70000) None
   = (Inr \<lparr>tx_from = stubAddress, tx_to = ''0xPool'', tx_value = Finite 0,
            tx_gasLimit = Double 241000, tx_data = ''unstake''\<rparr>,
      [ReadContract ''0xAcc'' ABI_CONTRACT_ACCOUNTING ''autocompoundBalanceOf''
         [AStr stubAddress],
       EstimateGas ''0xPool'' ''unstake'' stubAddress])
   \<and> simulateUnstake stubLibrary
     (stubEthereum (stubClient [(''autocompoundBalanceOf'', 2000000000000000000)] (0, 0)
        (Inr 21000)))
     stubAddress ''1'' (Some 70000) None
   = (Inr (Finite 0),
      [ReadContract ''0xAcc'' ABI_CONTRACT_ACCOUNTING ''autocompoundBalanceOf''
         [AStr stubAddress],
       SimulateContract stubAddress ''0xPool'' ABI_CONTRACT_POOL ''unstake''
         [AInt 1000000000000000000, AInt 65535, AInt 0]])"
proof -
  let ?E = "stubEthereum (stubClient [(''autocompoundBalanceOf'', 2000000000000000000)]
              (0, 0) (Inr 21000))"
  note T = allowedInterchangeNum_clamped
    [of stubLibrary stubEthConstants ?E stubAddress "''1''" 70000 None]
  have c: "(if (65535 :: int) < 70000 then 65535 else 70000) = 65535"
    by simp
  have u: "unstake stubLibrary stubEthConstants ?E stubAddress ''1'' (Some 70000) None
     = unstake stubLibrary stubEthConstants ?E stubAddress ''1'' (Some 65535) None"
    using T [THEN conjunct1] unfolding c .
  have v: "simulateUnstake stubLibrary ?E stubAddress ''1'' (Some 70000) None
     = simulateUnstake stubLibrary ?E stubAddress ''1'' (Some 65535) None"
    using T [THEN conjunct2, THEN conjunct1] unfolding c .
  show ?thesis
    unfolding u v by (simp add: stub_unstake stub_simulateUnstake)
qed

text \<open>
  C10. Without the \<open>allowedInterchangeNum\<close> parameter, \<open>unstake\<close> behaves as with 0 and
  \<open>simulateUnstake\<close> as with 1: the call data of \<open>unstake\<close> encodes the allowance 0, the
  simulated call of \<open>simulateUnstake\<close> carries the allowance 1.
\<close>

theorem default_allowedInterchangeNum_differs:
  "unstake L K this address amount None s = unstake L K this address amount (Some 0) s
   \<and> simulateUnstake L this address amount None s
     = simulateUnstake L this address amount (Some 1) s
   \<and> (\<forall>t d a. EstimateGas t d a \<in> set (snd (unstake L K this address amount None s))
        \<longrightarrow> (\<exists>wei src. encodeFunctionData L (contract_abi (contractPool this))
               ''unstake'' [AInt wei, AInt 0, AInt src] = Inr d))
   \<and> (\<forall>tx. fst (unstake L K this address amount None s) = Inr tx
        \<longrightarrow> (\<exists>wei src. encodeFunctionData L (contract_abi (contractPool this))
               ''unstake'' [AInt wei, AInt 0, AInt src] = Inr (tx_data tx)))
   \<and> (\<forall>a c i f xs. SimulateContract a c i f xs
          \<in> set (snd (simulateUnstake L this address amount None s))
        \<longrightarrow> f = ''unstake'' \<and> (\<exists>wei src. xs = [AInt wei, AInt 1, AInt src]))"
proof -
  have m0: "min (orDefault None 0) UINT16_MAX = 0"
    and m1: "min (orDefault None 1) UINT16_MAX = 1"
    by (simp_all add: orDefault_def UINT16_MAX_def)
  have e0: "unstake L K this address amount None s
              = unstake L K this address amount (Some 0) s"
    by (simp add: unstake_def orDefault_def)
  have e1: "simulateUnstake L this address amount None s
              = simulateUnstake L this address amount (Some 1) s"
    by (simp add: simulateUnstake_def orDefault_def)
  show ?thesis
    using e0 e1
      unstake_estimate_data [of _ _ _ L K this address amount None s]
      unstake_result_data [of L K this address amount None s]
      simulateUnstake_call_args [of _ _ _ _ _ L this address amount None s]
    unfolding m0 m1 by blast
qed

theorem default_allowedInterchangeNum_differs_witness:
  "unstake stubLibrary stubEthConstants
     (stubEthereum (stubClient [(''autocompoundBalanceOf'', 2000000000000000000)] (0, 0)
        (Inr 21000)))
     stubAddress ''1'' None None
   = (Inr \<lparr>tx_from = stubAddress, tx_to = ''0xPool'', tx_value = Finite 0,
            tx_gasLimit = Double 241000, tx_data = ''unstake''\<rparr>,
      [ReadContract ''0xAcc'' ABI_CONTRACT_ACCOUNTING ''autocompoundBalanceOf''
         [AStr stubAddress],
       EstimateGas ''0xPool'' ''unstake'' stubAddress])
   \<and> simulateUnstake stubLibrary
     (stubEthereum (stubClient [(''autocompoundBalanceOf'', 2000000000000000000)] (0, 0)
        (Inr 21000)))
     stubAddress ''1'' None None
   = (Inr (Finite 0),
      [ReadContract ''0xAcc'' ABI_CONTRACT_ACCOUNTING ''autocompoundBalanceOf''
         [AStr stubAddress],
       SimulateContract stubAddress ''0xPool'' ABI_CONTRACT_POOL ''unstake''
         [AInt 1000000000000000000, AInt 1, AInt 0]])"
proof -
  let ?E = "stubEthereum (stubClient [(''autocompoundBalanceOf'', 2000000000000000000)]
              (0, 0) (Inr 21000))"
  note T = default_allowedInterchangeNum_differs
    [of stubLibrary stubEthConstants ?E stubAddress "''1''" None]
  note u = T [THEN conjunct1]
  note v = T [THEN conjunct2, THEN conjunct1]
  show ?thesis
    unfolding u v by (simp add: stub_unstake stub_simulateUnstake)
qed

subsection \<open>Minimum amounts are checked before any call to the client\<close>

text \<open>
  C6, amended. For an amount string that parses to a base-unit value below the configured
  minimum: Ethereum's \<open>stake\<close>, at every valid address (\<open>MIN_AMOUNT_ERROR\<close> being a code of
  the adapter's table), fails with \<open>MIN_AMOUNT_ERROR\<close>, and Polygon's \<open>approve\<close>, at every
  address, fails with its \<open>Min Amount\<close> error; in both, no call to the RPC client has been
  made (the record of calls is empty).
\<close>

theorem min_amount_before_rpc:
  assumes "parseUnits L amount 18 = Inr wei"
  shows "(isAddress L address \<and> bn_lt (bn_of_bigint wei) (minAmount this)
          \<and> ERROR_MESSAGES this ''MIN_AMOUNT_ERROR'' \<noteq> None
          \<longrightarrow> stake L K this address amount source
              = (Inl (SdkError ''MIN_AMOUNT_ERROR'' [Number (minAmount this)] None), []))
       \<and> (wei < MIN_AMOUNT P
          \<longrightarrow> approve L P that address' amount isPOL
              = (Inl (Error [Text ''Min Amount '', Text (formatUnits L (MIN_AMOUNT P) 18),
                             Text '' matic'']), []))"
  using assms
  by (simp add: stake_def approve_def io_defs Let_def throwError_known bn_of_bigint_lt)

theorem min_amount_before_rpc_witness:
  "stake stubLibrary stubEthConstants (stubEthereum (stubClient [] (0, 0) (Inr 21000)))
     stubAddress ''0'' None
     = (Inl (SdkError ''MIN_AMOUNT_ERROR'' [Number (Finite 100000000000000000)] None), [])
   \<and> approve stubLibrary stubPolygonConstants (stubPolygon (stubClient [] (0, 0) (Inr 21000)))
       stubAddress ''0'' None
     = (Inl (Error [Text ''Min Amount '', Text ''1'', Text '' matic'']), [])"
proof -
  let ?E = "stubEthereum (stubClient [] (0, 0) (Inr 21000))"
  have p: "parseUnits stubLibrary ''0'' 18 = Inr 0"
    by (simp add: stubLibrary_def)
  have a: "isAddress stubLibrary stubAddress \<and> bn_lt (bn_of_bigint 0) (minAmount ?E)
          \<and> ERROR_MESSAGES ?E ''MIN_AMOUNT_ERROR'' \<noteq> None"
    by (simp add: stub_defs bn_lt_def bn_of_bigint_def)
  have b: "(0 :: int) < MIN_AMOUNT stubPolygonConstants"
    by (simp add: stubPolygonConstants_def)
  note r1 = min_amount_before_rpc [OF p, THEN conjunct1, rule_format, OF a]
  note r2 = min_amount_before_rpc [OF p, THEN conjunct2, rule_format, OF b]
  show ?thesis
    unfolding r1 r2 by (simp add: stub_defs stubPolygonConstants_def)
qed

text \<open>
  The claim as written fails at an address that is not valid: \<open>stake\<close> then fails with
  \<open>ADDRESS_FORMAT_ERROR\<close>, not with the minimum-amount error, whatever the amount.
\<close>

theorem stake_invalid_address:
  "\<not> isAddress stubLibrary ''abc''
   \<and> parseUnits stubLibrary ''0'' 18 = Inr 0
   \<and> bn_lt (bn_of_bigint 0)
        (minAmount (stubEthereum (stubClient [] (0, 0) (Inr 21000))))
   \<and> stake stubLibrary stubEthConstants (stubEthereum (stubClient [] (0, 0) (Inr 21000)))
        ''abc'' ''0'' None
       = (Inl (SdkError ''ADDRESS_FORMAT_ERROR'' [] None), [])"
  by (simp add: stake_def io_defs Let_def stub_defs throwError_def bn_lt_def bn_of_bigint_def)

subsection \<open>Ethereum: selecting an unknown network\<close>

text \<open>
  Where the table has no entry under the identifier and \<open>Object.prototype\<close> has no property
  of that name (\<open>NETWORK_NOT_SUPPORTED\<close> being a code of the adapter's table),
  \<open>selectNetwork\<close> fails with \<open>NETWORK_NOT_SUPPORTED\<close> and leaves the adapter as it was, and
  a following \<open>selectNetwork\<close> with an identifier of the table succeeds and binds the client
  and the three addresses of that network.
\<close>

lemma selectNetwork_undefined:
  assumes "getProperty (ETH_NETWORK_ADDRESSES K) network = Undefined"
    and "ERROR_MESSAGES this ''NETWORK_NOT_SUPPORTED'' \<noteq> None"
  shows "selectNetwork L K (Adapter this) network url
           = (Inl (SdkError ''NETWORK_NOT_SUPPORTED'' [Text network] None), Adapter this)
       \<and> (\<forall>network' a url'. ETH_NETWORK_ADDRESSES K network' = Some a \<longrightarrow>
            selectNetwork L K (snd (selectNetwork L K (Adapter this) network url))
                network' url'
              = (Inr (), Adapter
                 (this\<lparr>client := createPublicClient L
                         (Http (case url' of None \<Rightarrow> rpcUrl a
                                | Some u \<Rightarrow> if u = [] then rpcUrl a else u) 1 300),
                      addressContractWithdrawTreasury := addressContractWithdrawTreasury_of a,
                      contractAccounting :=
                        \<lparr>contract_abi = ABI_CONTRACT_ACCOUNTING,
                         contract_address = addressContractAccounting a\<rparr>,
                      contractPool :=
                        \<lparr>contract_abi = ABI_CONTRACT_POOL,
                         contract_address = addressContractPool a\<rparr>\<rparr>)))"
proof -
  have r: "selectNetwork L K (Adapter this) network url
           = (Inl (SdkError ''NETWORK_NOT_SUPPORTED'' [Text network] None), Adapter this)"
    using assms
    by (auto simp add: selectNetwork_def initializeNetwork_def messagesOf_def throwError_def)
  show ?thesis
    unfolding r
    by (cases this)
       (auto simp add: selectNetwork_def initializeNetwork_def getProperty_def messagesOf_def
          minAmountOf_def Let_def split: option.splits)
qed

lemma selectNetwork_undefined_example:
  "selectNetwork stubLibrary stubEthConstants
     (Adapter (stubEthereum (stubClient [] (0, 0) (Inr 21000)))) ''goerli'' None
     = (Inl (SdkError ''NETWORK_NOT_SUPPORTED'' [Text ''goerli''] None),
        Adapter (stubEthereum (stubClient [] (0, 0) (Inr 21000))))
   \<and> selectNetwork stubLibrary stubEthConstants
       (snd (selectNetwork stubLibrary stubEthConstants
          (Adapter (stubEthereum (stubClient [] (0, 0) (Inr 21000)))) ''goerli'' None))
       ''mainnet'' (Some ''https://other'')
     = (Inr (), Adapter
        ((stubEthereum (stubClient [] (0, 0) (Inr 21000)))
          \<lparr>client := createPublicClient stubLibrary (Http ''https://other'' 1 300)\<rparr>))"
proof -
  let ?E = "stubEthereum (stubClient [] (0, 0) (Inr 21000))"
  have u: "getProperty (ETH_NETWORK_ADDRESSES stubEthConstants) ''goerli'' = Undefined"
    by (simp add: stubEthConstants_def getProperty_def objectPrototypeNames_def)
  have k: "ERROR_MESSAGES ?E ''NETWORK_NOT_SUPPORTED'' \<noteq> None"
    by (simp add: stubEthereum_def stubMessages_def)
  have m: "ETH_NETWORK_ADDRESSES stubEthConstants ''mainnet'' = Some
      \<lparr>addressContractAccounting = ''0xAcc'', addressContractPool = ''0xPool'',
       addressContractWithdrawTreasury_of = ''0xTreasury'', rpcUrl = ''https://rpc''\<rparr>"
    by (simp add: stubEthConstants_def)
  note T = selectNetwork_undefined [OF u k, of stubLibrary None]
  note r1 = T [THEN conjunct1]
  note r2 = T [THEN conjunct2, rule_format, OF m, of "Some ''https://other''"]
  show ?thesis
    unfolding r2 unfolding r1 by (simp add: stubEthereum_def)
qed

text \<open>
  C7, which the code breaks. An identifier that is not an entry of the table and that
  names a property of \<open>Object.prototype\<close>, such as \<open>constructor\<close>, is unrecognized, and
  \<open>selectNetwork\<close> does not fail with \<open>NETWORK_NOT_SUPPORTED\<close> on it. With a URL given, the
  call succeeds: the client is bound to that URL and the accounting, pool and
  withdraw-treasury addresses are left \<open>undefined\<close>. With no URL (or the empty one), the
  outcome is that of \<open>createPublicClient\<close> on an \<open>undefined\<close> transport.
\<close>

theorem selectNetwork_inherited_name:
  assumes "network \<in> set objectPrototypeNames"
    and "ETH_NETWORK_ADDRESSES K network = None"
  shows "(url \<noteq> [] \<longrightarrow>
            selectNetwork L K (Adapter this) network (Some url)
              = (Inr (), AddressesUndefined
                  \<lparr>ERROR_MESSAGES = ERROR_MESSAGES this,
                   client_u = createPublicClient L (Http url 1 300),
                   minAmount_u = minAmount this\<rparr>))
       \<and> selectNetwork L K (Adapter this) network None
           = (case createPublicClientNoTransport L of
                Inl e \<Rightarrow> (Inl e, Adapter this)
              | Inr c \<Rightarrow> (Inr (), AddressesUndefined
                  \<lparr>ERROR_MESSAGES = ERROR_MESSAGES this, client_u = c,
                   minAmount_u = minAmount this\<rparr>))"
  using assms
  by (simp add: selectNetwork_def initializeNetwork_def getProperty_def messagesOf_def
        minAmountOf_def split: sum.splits)

theorem selectNetwork_inherited_name_witness:
  "selectNetwork stubLibrary stubEthConstants
     (Adapter (stubEthereum (stubClient [] (0, 0) (Inr 21000))))
     ''constructor'' (Some ''https://other'')
     = (Inr (), AddressesUndefined
         \<lparr>ERROR_MESSAGES = stubMessages,
          client_u = stubClient [] (0, 0) (Inr 21000),
          minAmount_u = Finite 100000000000000000\<rparr>)
   \<and> selectNetwork stubLibrary stubEthConstants
     (Adapter (stubEthereum (stubClient [] (0, 0) (Inr 21000)))) ''constructor'' None
     = (Inl (Error [Text ''TypeError'']),
        Adapter (stubEthereum (stubClient [] (0, 0) (Inr 21000))))"
proof -
  let ?E = "stubEthereum (stubClient [] (0, 0) (Inr 21000))"
  have a: "''constructor'' \<in> set objectPrototypeNames"
    by (simp add: objectPrototypeNames_def)
  have b: "ETH_NETWORK_ADDRESSES stubEthConstants ''constructor'' = None"
    by (simp add: stubEthConstants_def)
  have c: "''https://other'' \<noteq> []"
    by simp
  note T = selectNetwork_inherited_name [OF a b, of _ stubLibrary ?E]
  note r1 = T [THEN conjunct1, rule_format, OF c]
  note r2 = T [THEN conjunct2]
  show ?thesis
    unfolding r1 r2 by (simp add: stub_defs)
qed

subsection \<open>Gas limits\<close>

lemma gasPadded_throw: "gasPadded c p r (io_throw e)"
  by (simp add: gasPadded_def io_throw_def)

lemma gasPadded_bind: "(\<And>a. gasPadded c p r (f a)) \<Longrightarrow> gasPadded c p r (io_bind m f)"
proof -
  assume h: "\<And>a. gasPadded c p r (f a)"
  show ?thesis
  proof (cases m)
    case (Pair x t)
    show ?thesis
    proof (cases x)
      case (Inl e)
      with Pair show ?thesis by (simp add: io_bind_def gasPadded_def)
    next
      case (Inr a)
      obtain y t' where fa: "f a = (y, t')" by (cases "f a")
      from h [of a] fa have "gasPadded c p r (y, t @ t')" by (simp add: gasPadded_def)
      with Pair Inr fa show ?thesis by (simp add: io_bind_def)
    qed
  qed
qed

lemma gasPadded_try: "gasPadded c p r m \<Longrightarrow> gasPadded c p r (io_try m (\<lambda>e. io_throw (h e)))"
  by (cases m) (auto simp add: io_try_def io_throw_def gasPadded_def split: sum.splits)

lemma gasPadded_getTransaction:
  "gasPadded (client this) (calculateGasLimit K) (ETH_GAS_RESERVE K)
     (getTransaction K this data address ca val)"
  by (simp add: getTransaction_def io_defs gasPadded_def calculateGasLimit_safe
       split: sum.splits)

lemma gasPadded_getTransaction_b:
  "gasPadded (client_b this) (calculateGasLimit_b B) (GAS_RESERVE B)
     (getTransaction_b B this data address)"
  by (simp add: getTransaction_b_def io_defs gasPadded_def calculateGasLimit_b_safe
       split: sum.splits)

lemmas gasPadded_intros = gasPadded_throw gasPadded_bind gasPadded_try
  gasPadded_getTransaction gasPadded_getTransaction_b

lemma gasPadded_stake:
  "gasPadded (client this) (calculateGasLimit K) (ETH_GAS_RESERVE K)
     (stake L K this address amount source)"
  by (auto simp add: stake_def Let_def intro!: gasPadded_intros)

lemma gasPadded_unstake:
  "gasPadded (client this) (calculateGasLimit K) (ETH_GAS_RESERVE K)
     (unstake L K this address amount n source)"
  by (auto simp add: unstake_def Let_def intro!: gasPadded_intros)

lemma gasPadded_unstakePending:
  "gasPadded (client this) (calculateGasLimit K) (ETH_GAS_RESERVE K)
     (unstakePending L K this address amount)"
  by (auto simp add: unstakePending_def Let_def intro!: gasPadded_intros)

lemma gasPadded_claimWithdrawRequest:
  "gasPadded (client this) (calculateGasLimit K) (ETH_GAS_RESERVE K)
     (claimWithdrawRequest L K this address)"
  by (auto simp add: claimWithdrawRequest_def Let_def intro!: gasPadded_intros)

lemma gasPadded_autocompound:
  "gasPadded (client this) (calculateGasLimit K) (ETH_GAS_RESERVE K)
     (autocompound L K this address)"
  by (auto simp add: autocompound_def Let_def intro!: gasPadded_intros)

lemma gasPadded_activateStake:
  "gasPadded (client this) (calculateGasLimit K) (ETH_GAS_RESERVE K)
     (activateStake L K this address)"
  by (auto simp add: activateStake_def Let_def intro!: gasPadded_intros)

lemma gasPadded_approveForStake:
  "gasPadded (client_b this) (calculateGasLimit_b B) (GAS_RESERVE B)
     (approveForStake L B this address amount)"
  by (auto simp add: approveForStake_def Let_def intro!: gasPadded_intros)

lemma gasPadded_activateStake_b:
  "gasPadded (client_b this) (calculateGasLimit_b B) (GAS_RESERVE B)
     (activateStake_b L B this address)"
  by (auto simp add: activateStake_b_def Let_def intro!: gasPadded_intros)

lemma gasPadded_cancelStakeInQueue:
  "gasPadded (client_b this) (calculateGasLimit_b B) (GAS_RESERVE B)
     (cancelStakeInQueue L B this address amount)"
  by (auto simp add: cancelStakeInQueue_def Let_def intro!: gasPadded_intros)

lemma gasPadded_unstake_b:
  "gasPadded (client_b this) (calculateGasLimit_b B) (GAS_RESERVE B)
     (unstake_b L B this address amount)"
  by (auto simp add: unstake_b_def Let_def intro!: gasPadded_intros)

lemma gasPadded_stake_b:
  "gasPadded (client_b this) (calculateGasLimit_b B) (GAS_RESERVE B)
     (stake_b L B this address amount)"
  by (auto simp add: stake_b_def Let_def intro!: gasPadded_intros)

lemma gasPadded_queueUnstake:
  "gasPadded (client_b this) (calculateGasLimit_b B) (GAS_RESERVE B)
     (queueUnstake L B this address amount)"
  by (auto simp add: queueUnstake_def Let_def intro!: gasPadded_intros)

lemma gasPadded_cancelUnstake:
  "gasPadded (client_b this) (calculateGasLimit_b B) (GAS_RESERVE B)
     (cancelUnstake L B this address amount)"
  by (auto simp add: cancelUnstake_def Let_def intro!: gasPadded_intros)

lemma gasRaw_approve:
  "gasRaw (client_p this) (approve L P this address amount isPOL)"
  by (auto simp add: approve_def getTransaction_p_def io_defs gasRaw_def Let_def
        split: sum.splits)

text \<open>
  Above \<open>2 ^ 53\<close> the sum is rounded: at the stub's reserve of 220000, an estimate of
  \<open>2 ^ 53 + 1 - 220000\<close> gives the gas limit \<open>2 ^ 53\<close>, not \<open>2 ^ 53 + 1\<close>.
\<close>

lemma calculateGasLimit_rounds:
  "calculateGasLimit stubEthConstants 9007199254520993 = Double 9007199254740992"
  by (simp add: calculateGasLimit_def stubEthConstants_def roundToDouble_def
        doubleShift_less doubleShift_halve Let_def)

text \<open>
  C8, amended. In the Ethereum and Berrachain adapters, every operation that estimates gas
  returns a transaction whose gas limit is what the adapter's \<open>calculateGasLimit\<close> makes of
  the client's estimate for that transaction: the estimate plus the adapter's reserve
  constant (\<open>ETH_GAS_RESERVE\<close>, \<open>GAS_RESERVE\<close>) as a JavaScript number, which is that sum
  itself whenever the estimate and the sum are at most \<open>2 ^ 53\<close> in magnitude. In the
  Polygon adapter, \<open>approve\<close>, the one operation that estimates gas, returns the estimate
  itself.
\<close>

theorem gas_limit_policy:
  "gasPadded (client e) (calculateGasLimit K) (ETH_GAS_RESERVE K)
       (stake L K e address amount source)
   \<and> gasPadded (client e) (calculateGasLimit K) (ETH_GAS_RESERVE K)
       (unstake L K e address amount n source)
   \<and> gasPadded (client e) (calculateGasLimit K) (ETH_GAS_RESERVE K)
       (unstakePending L K e address amount)
   \<and> gasPadded (client e) (calculateGasLimit K) (ETH_GAS_RESERVE K)
       (claimWithdrawRequest L K e address)
   \<and> gasPadded (client e) (calculateGasLimit K) (ETH_GAS_RESERVE K)
       (autocompound L K e address)
   \<and> gasPadded (client e) (calculateGasLimit K) (ETH_GAS_RESERVE K)
       (activateStake L K e address)
   \<and> gasPadded (client_b b) (calculateGasLimit_b B) (GAS_RESERVE B)
       (approveForStake L B b address amount)
   \<and> gasPadded (client_b b) (calculateGasLimit_b B) (GAS_RESERVE B)
       (activateStake_b L B b address)
   \<and> gasPadded (client_b b) (calculateGasLimit_b B) (GAS_RESERVE B)
       (cancelStakeInQueue L B b address amount)
   \<and> gasPadded (client_b b) (calculateGasLimit_b B) (GAS_RESERVE B)
       (unstake_b L B b address amount)
   \<and> gasPadded (client_b b) (calculateGasLimit_b B) (GAS_RESERVE B)
       (stake_b L B b address amount)
   \<and> gasPadded (client_b b) (calculateGasLimit_b B) (GAS_RESERVE B)
       (queueUnstake L B b address amount)
   \<and> gasPadded (client_b b) (calculateGasLimit_b B) (GAS_RESERVE B)
       (cancelUnstake L B b address amount)
   \<and> gasRaw (client_p p) (approve L P p address amount isPOL)"
  by (intro conjI gasPadded_stake gasPadded_unstake gasPadded_unstakePending
        gasPadded_claimWithdrawRequest gasPadded_autocompound gasPadded_activateStake
        gasPadded_approveForStake gasPadded_activateStake_b gasPadded_cancelStakeInQueue
        gasPadded_unstake_b gasPadded_stake_b gasPadded_queueUnstake gasPadded_cancelUnstake
        gasRaw_approve)

theorem gas_limit_policy_witness:
  "gasPadded (client (stubEthereum (stubClient [] (0, 0) (Inr 21000))))
     (calculateGasLimit stubEthConstants) (ETH_GAS_RESERVE stubEthConstants)
     (stake stubLibrary stubEthConstants (stubEthereum (stubClient [] (0, 0) (Inr 21000)))
        stubAddress ''1'' None)
   \<and> stake stubLibrary stubEthConstants (stubEthereum (stubClient [] (0, 0) (Inr 21000)))
        stubAddress ''1'' None
     = (Inr \<lparr>tx_from = stubAddress, tx_to = ''0xPool'', tx_value = Finite 1000000000000000000,
              tx_gasLimit = Double 241000, tx_data = ''stake''\<rparr>,
        [EstimateGas ''0xPool'' ''stake'' stubAddress])
   \<and> gasPadded (client_b (stubBerrachain (stubClient [] (0, 0) (Inr 21000))))
     (calculateGasLimit_b stubBeraConstants) (GAS_RESERVE stubBeraConstants)
     (stake_b stubLibrary stubBeraConstants (stubBerrachain (stubClient [] (0, 0) (Inr 21000)))
        stubAddress ''1'')
   \<and> stake_b stubLibrary stubBeraConstants (stubBerrachain (stubClient [] (0, 0) (Inr 21000)))
        stubAddress ''1''
     = (Inr \<lparr>tx_from = stubAddress, tx_to = ''0xBgt'', tx_value = Finite 0,
              tx_gasLimit = Double 71000, tx_data = ''queueBoost''\<rparr>,
        [EstimateGas ''0xBgt'' ''queueBoost'' stubAddress])
   \<and> gasRaw (client_p (stubPolygon (stubClient [] (0, 0) (Inr 21000))))
     (approve stubLibrary stubPolygonConstants (stubPolygon (stubClient [] (0, 0) (Inr 21000)))
        stubAddress ''1'' None)"
proof -
  note T = gas_limit_policy
    [of "stubEthereum (stubClient [] (0, 0) (Inr 21000))" stubEthConstants stubLibrary
        stubAddress "''1''" None None "stubBerrachain (stubClient [] (0, 0) (Inr 21000))"
        stubBeraConstants "stubPolygon (stubClient [] (0, 0) (Inr 21000))"
        stubPolygonConstants None]
  have r1: "stake stubLibrary stubEthConstants
        (stubEthereum (stubClient [] (0, 0) (Inr 21000))) stubAddress ''1'' None
     = (Inr \<lparr>tx_from = stubAddress, tx_to = ''0xPool'', tx_value = Finite 1000000000000000000,
              tx_gasLimit = Double 241000, tx_data = ''stake''\<rparr>,
        [EstimateGas ''0xPool'' ''stake'' stubAddress])"
    by (simp add: stake_def io_defs Let_def stub_defs getTransaction_def calculateGasLimit_def
          roundToDouble_def orDefault_def bn_lt_def bn_of_bigint_def)
  have r2: "stake_b stubLibrary stubBeraConstants
        (stubBerrachain (stubClient [] (0, 0) (Inr 21000))) stubAddress ''1''
     = (Inr \<lparr>tx_from = stubAddress, tx_to = ''0xBgt'', tx_value = Finite 0,
              tx_gasLimit = Double 71000, tx_data = ''queueBoost''\<rparr>,
        [EstimateGas ''0xBgt'' ''queueBoost'' stubAddress])"
    by (simp add: stake_b_def io_defs Let_def stubb_defs getTransaction_b_def
          calculateGasLimit_b_def jsPlus_def roundToDouble_def)
  show ?thesis
    using T r1 r2 by blast
qed

text \<open>
  The claim as written fails on Polygon: with an estimate of 21000, \<open>approve\<close> returns the
  gas limit 21000.
\<close>

theorem polygon_approve_raw_estimate:
  "estimateGas (client_p (stubPolygon (stubClient [] (0, 0) (Inr 21000))))
     ''0xApprove'' ''approve'' stubAddress = Inr 21000
   \<and> fst (approve stubLibrary stubPolygonConstants
          (stubPolygon (stubClient [] (0, 0) (Inr 21000))) stubAddress ''1'' None)
     = Inr \<lparr>req_from = stubAddress, req_to = ''0xApprove'', req_gasLimit = 21000,
            req_data = ''approve''\<rparr>"
  by (simp add: approve_def getTransaction_p_def io_defs Let_def stubp_defs stubAddress_def
        bn_lt_def bn_of_bigint_def)

subsection \<open>Polygon: the failures that leave a public method\<close>




















text \<open>
  The read of the current epoch has no handler: a failure of the client leaves
  \<open>getCurrentEpoch\<close> as it is, with no code.
\<close>

lemma getCurrentEpoch_raw_failure:
  "fst (getCurrentEpoch (stubPolygon (stubClient [] (0, 0) (Inr 21000))))
     = Inl (Error [Text ''execution reverted''])
   \<and> \<not> carriesCode (stubPolygon (stubClient [] (0, 0) (Inr 21000)))
         (Error [Text ''execution reverted''])"
  by (simp add: getCurrentEpoch_def io_call_def stubp_defs carriesCode_def)




end
